theory Spec2Isabelle
  imports Main "HOL-Library.Sublist"
begin

section \<open>Document approval workflow (server2.js): data model\<close>

text \<open>
  The server keeps its workflow state in a MySQL database (tables \<open>documents\<close> and
  \<open>users\<close>), a process-wide object \<open>otpStore\<close>, a Google Drive folder and a local
  directory \<open>uploads/\<close>. Each route handler is embedded as a function from the
  environment of the request and the state before it to the state after it and the
  response. What the outside world decides (whether the mail relay, the database or Drive
  reject a call, the clock, the variables of \<open>process.env\<close>, Node's \<open>path\<close> module) is
  read from the environment record, so every \<open>catch\<close> branch of the source is a branch of
  the model.
\<close>

type_synonym timestamp = nat

text \<open>A row of \<open>documents\<close>; the nullable columns are options.\<close>

record document =
  doc_id :: nat
  document_name :: string
  document_link :: string
  uploaded_by :: string
  upload_time :: timestamp
  approval_status :: string
  approved_by :: "string option"
  approval_time :: "timestamp option"
  review_status :: string
  reviewer :: "string option"
  review_time :: "timestamp option"

text \<open>A row of \<open>users\<close>, with the two columns the workflow reads.\<close>

record user =
  username :: string
  email :: string

text \<open>The argument of \<open>transporter.sendMail\<close>. An address is \<open>None\<close> where the source
  passes \<open>null\<close> or an unset environment variable.\<close>

record mail =
  mail_from :: "string option"
  mail_to :: "string option list"
  subject :: string
  html :: string

record drive_file =
  file_id :: string
  file_name :: string
  parents :: "string option list"
  public_reader :: bool

datatype log_entry = Log string | LogError string string

record state =
  documents :: "document list"
  users :: "user list"
  otpStore :: "string \<rightharpoonup> string"
  drive :: "drive_file list"
  uploads :: "string set"
  outbox :: "mail list"
  console :: "log_entry list"

text \<open>The statements that the handlers modelled here send to the database.\<close>

datatype stmt =
    SelectDocumentsLike
  | SelectDocumentsByUploader
  | SelectDocumentById
  | SelectEmailByUsername
  | InsertDocument
  | UpdateApproval
  | UpdateReview

text \<open>
  The environment of one request. \<open>mail_error\<close>, \<open>db_error\<close>, \<open>drive_create\<close> and
  \<open>drive_permission_error\<close> say how the external services answer: \<open>Some msg\<close>
  (\<open>Inl msg\<close> for \<open>drive_create\<close>, whose \<open>Inr\<close> is the id of the new file) is a rejected
  promise whose error has the message \<open>msg\<close>. \<open>auto_increment\<close> is the id the database gives
  to an inserted row. \<open>multer_date_now\<close> and \<open>date_now\<close> are the decimal readings of
  \<open>Date.now()\<close> in multer's \<open>filename\<close> and in the upload handler; \<open>ist_date\<close> and
  \<open>new_date\<close> are the \<open>Date\<close> values the approval, upload and review handlers store. \<open>extname\<close> and \<open>toLowerCase\<close>
  are Node's \<open>path.extname\<close> and \<open>String.prototype.toLowerCase\<close>.
\<close>

record env =
  EMAIL_USER :: "string option"
  APPROVER_EMAIL :: "string option"
  REVIEWER_EMAIL :: "string option"
  SHAREDDRIVE :: "string option"
  multer_date_now :: string
  date_now :: string
  ist_date :: timestamp
  new_date :: timestamp
  mail_error :: "mail \<Rightarrow> string option"
  db_error :: "stmt \<Rightarrow> string option"
  drive_create :: "string \<Rightarrow> string + string"
  drive_permission_error :: "string \<Rightarrow> string option"
  auto_increment :: nat
  extname :: "string \<Rightarrow> string"
  toLowerCase :: "string \<Rightarrow> string"

datatype body =
    Message string
  | Error string
  | ErrorDetail string string
  | SuccessMessage string
  | Rows "document list"
  | Sent string

text \<open>\<open>Json code b\<close> is \<open>res.status(code).json(b)\<close>, with 200 where the source sets no
  status (\<open>Sent\<close> is the body of \<open>res.send(err)\<close>); \<open>Errored msg\<close> is an error that is not
  caught by the handler and goes to Express: multer's \<open>next(err)\<close>, or a throw outside
  \<open>try\<close>.\<close>

datatype response = Json nat body | Errored string

definition console_log :: "string \<Rightarrow> state \<Rightarrow> state" where
  "console_log msg st = st\<lparr>console := console st @ [Log msg]\<rparr>"

definition console_error :: "string \<Rightarrow> string \<Rightarrow> state \<Rightarrow> state" where
  "console_error msg detail st = st\<lparr>console := console st @ [LogError msg detail]\<rparr>"

text \<open>\<open>transporter.sendMail\<close>: the message is handed to the relay, which accepts or
  rejects it.\<close>

definition sendMail :: "env \<Rightarrow> mail \<Rightarrow> state \<Rightarrow> state \<times> string option" where
  "sendMail e m st = (st\<lparr>outbox := outbox st @ [m]\<rparr>, mail_error e m)"

text \<open>
  Modelled from the spec: the comparison of a text column with a parameter in a
  \<open>WHERE\<close> clause. The declaration of the tables, which fixes the collation, is not in
  the repository's source; the spec calls the comparison an exact match.
\<close>

definition sql_eq :: "string \<Rightarrow> string \<Rightarrow> bool" where
  "sql_eq a b = (a = b)"

subsection \<open>getUserEmailByUsername\<close>

definition getUserEmailByUsername :: "env \<Rightarrow> string \<Rightarrow> state \<Rightarrow> state \<times> string option" where
  "getUserEmailByUsername e name st =
     (case db_error e SelectEmailByUsername of
        Some msg \<Rightarrow> (console_error ''Error fetching sender email:'' msg st, None)
      | None \<Rightarrow>
          (case filter (\<lambda>u. sql_eq (username u) name) (users st) of
             [] \<Rightarrow> (st, None)
           | u # _ \<Rightarrow> (st, Some (email u))))"

subsection \<open>PUT /api/review\<close>

text \<open>The three emoji of the subjects, as their UTF-8 bytes.\<close>

definition emoji_check :: string where
  "emoji_check = [CHR 0xE2, CHR 0x9C, CHR 0x85]"

definition emoji_cross :: string where
  "emoji_cross = [CHR 0xE2, CHR 0x9D, CHR 0x8C]"

definition emoji_page :: string where
  "emoji_page = [CHR 0xF0, CHR 0x9F, CHR 0x93, CHR 0x84]"

definition nl :: string where
  "nl = [CHR 0x0A]"

definition review_where :: "string \<Rightarrow> document \<Rightarrow> bool" where
  "review_where uploader d =
     (sql_eq (uploaded_by d) uploader \<and> sql_eq (approval_status d) ''Approved'')"

definition update_review ::
  "string \<Rightarrow> string \<Rightarrow> timestamp \<Rightarrow> string \<Rightarrow> document list \<Rightarrow> document list" where
  "update_review rstatus rvw rtime uploader ds =
     map (\<lambda>d. if review_where uploader d
              then d\<lparr>review_status := rstatus, reviewer := Some rvw, review_time := Some rtime\<rparr>
              else d) ds"

definition review_mail :: "env \<Rightarrow> string option \<Rightarrow> string \<Rightarrow> string \<Rightarrow> string \<Rightarrow> mail" where
  "review_mail e senderEmail uploader rstatus rvw =
     \<lparr>mail_from = EMAIL_USER e,
      mail_to = [senderEmail, APPROVER_EMAIL e],
      subject = (if rstatus = ''Approved''
                 then emoji_check @ '' Document Reviewed & Approved''
                 else emoji_cross @ '' Document Reviewed & Rejected''),
      html = nl @ ''      <h3>Document reviewed by: '' @ rvw @ ''</h3>'' @ nl @
             ''      <p><strong>Status:</strong> '' @ rstatus @ ''</p>'' @ nl @
             ''      <p><strong>Uploaded By:</strong> '' @ uploader @ ''</p>'' @ nl @
             ''    ''\<rparr>"

definition review_failed :: "string \<Rightarrow> state \<Rightarrow> state \<times> response" where
  "review_failed msg st =
     (console_error ''DB Error:'' msg st, Json 500 (Error ''Failed to update review status.''))"

definition put_review :: "env \<Rightarrow> string \<Rightarrow> string \<Rightarrow> string \<Rightarrow> state \<Rightarrow> state \<times> response" where
  "put_review e uploader rstatus rvw st =
     (case db_error e UpdateReview of
        Some msg \<Rightarrow> review_failed msg st
      | None \<Rightarrow>
          (let st1 = st\<lparr>documents := update_review rstatus rvw (new_date e) uploader (documents st)\<rparr>;
               (st2, senderEmail) = getUserEmailByUsername e uploader st1;
               (st3, failure) = sendMail e (review_mail e senderEmail uploader rstatus rvw) st2
           in case failure of
                Some msg \<Rightarrow> review_failed msg st3
              | None \<Rightarrow> (st3, Json 200 (Message ''Review status updated and notification sent.''))))"

subsection \<open>sendEmailNotification and sendApprovalNotification\<close>

text \<open>Of a \<open>console.log\<close> or \<open>console.error\<close> call the model keeps the message and, for an
  error, \<open>err.message\<close>; further values printed after the message are left out.\<close>

definition dquote :: string where
  "dquote = [CHR 0x22]"

definition upload_mail :: "env \<Rightarrow> string \<Rightarrow> string \<Rightarrow> string \<Rightarrow> mail" where
  "upload_mail e documentName uploadedBy documentLink =
     \<lparr>mail_from = EMAIL_USER e,
      mail_to = [APPROVER_EMAIL e],
      subject = emoji_page @ '' New Document Uploaded for Review'',
      html = nl @ ''      <h3>A new document has been uploaded.</h3>'' @ nl @
             ''      <p><strong>Uploaded By:</strong> '' @ uploadedBy @ ''</p>'' @ nl @
             ''      <p><strong>Document:</strong> '' @ documentName @ ''</p>'' @ nl @
             ''      <p><strong>Link:</strong> <a href='' @ dquote @ documentLink @ dquote @
             ''>Download PDF</a></p>'' @ nl @
             ''    ''\<rparr>"

definition sendEmailNotification :: "env \<Rightarrow> string \<Rightarrow> string \<Rightarrow> string \<Rightarrow> state \<Rightarrow> state" where
  "sendEmailNotification e documentName uploadedBy documentLink st =
     (let (st1, failure) = sendMail e (upload_mail e documentName uploadedBy documentLink) st
      in case failure of
           None \<Rightarrow> console_log (emoji_check @ '' Email sent to approver.'') st1
         | Some msg \<Rightarrow> console_error (emoji_cross @ '' Failed to send email:'') msg st1)"

definition approval_subject :: "string option \<Rightarrow> string \<Rightarrow> string \<Rightarrow> string" where
  "approval_subject recipientRole documentName status =
     (if recipientRole = Some ''sender''
      then emoji_check @ '' Your document '' @ dquote @ documentName @ dquote @ '' has been approved''
      else if recipientRole = Some ''reviewer''
      then emoji_page @ '' New Document '' @ dquote @ documentName @ dquote @ '' Needs Your Review''
      else emoji_page @ '' Document '' @ dquote @ documentName @ dquote @ '' Status: '' @ status)"

definition approval_html :: "string option \<Rightarrow> string \<Rightarrow> string \<Rightarrow> string \<Rightarrow> string" where
  "approval_html recipientRole documentName uploadedBy status =
     (if recipientRole = Some ''sender''
      then nl @ ''      <h3>Good news!</h3>'' @ nl @
           ''      <p>Your document <strong>'' @ documentName @ ''</strong> uploaded by <strong>'' @
           uploadedBy @ ''</strong> has been approved by the approver.</p>'' @ nl @
           ''      <p>It will now be reviewed by the reviewer.</p>'' @ nl @
           ''    ''
      else if recipientRole = Some ''reviewer''
      then nl @ ''      <h3>Document Ready for Review</h3>'' @ nl @
           ''      <p>A new document <strong>'' @ documentName @ ''</strong> uploaded by <strong>'' @
           uploadedBy @ ''</strong> has been approved and is ready for your review.</p>'' @ nl @
           ''      <p>Please log in to the system and take necessary action.</p>'' @ nl @
           ''    ''
      else nl @ ''      <h3>Document Status Update</h3>'' @ nl @
           ''      <p><strong>'' @ documentName @ ''</strong> uploaded by <strong>'' @
           uploadedBy @ ''</strong> is now marked as: <strong>'' @ status @ ''</strong>.</p>'' @ nl @
           ''    '')"

definition approval_mail ::
  "env \<Rightarrow> string option list \<Rightarrow> string \<Rightarrow> string \<Rightarrow> string \<Rightarrow> string option \<Rightarrow> mail" where
  "approval_mail e toEmails documentName uploadedBy status recipientRole =
     \<lparr>mail_from = EMAIL_USER e,
      mail_to = toEmails,
      subject = approval_subject recipientRole documentName status,
      html = approval_html recipientRole documentName uploadedBy status\<rparr>"

definition role_text :: "string option \<Rightarrow> string" where
  "role_text recipientRole = (case recipientRole of None \<Rightarrow> ''undefined'' | Some r \<Rightarrow> r)"

definition sendApprovalNotification ::
  "env \<Rightarrow> string option list \<Rightarrow> string \<Rightarrow> string \<Rightarrow> string \<Rightarrow> string option \<Rightarrow> state \<Rightarrow> state" where
  "sendApprovalNotification e toEmails documentName uploadedBy status recipientRole st =
     (let (st1, failure) =
            sendMail e (approval_mail e toEmails documentName uploadedBy status recipientRole) st
      in case failure of
           None \<Rightarrow> console_log (emoji_check @ '' Email sent to '' @ role_text recipientRole @ '':'') st1
         | Some msg \<Rightarrow>
             console_error (emoji_cross @ '' Failed to send email to '' @ role_text recipientRole @ '':'')
               msg st1)"

subsection \<open>PUT /api/approve/:id\<close>

text \<open>
  Modelled from the spec: the comparison \<open>WHERE id = ?\<close> of the \<open>id\<close> column with the route
  parameter. The declaration of the column is not in the repository's source; the spec
  speaks of the document with that identifier, so the parameter is taken in the column's
  type and compared by equality.
\<close>

definition id_eq :: "nat \<Rightarrow> nat \<Rightarrow> bool" where
  "id_eq a b = (a = b)"

definition update_approval ::
  "string \<Rightarrow> string \<Rightarrow> timestamp \<Rightarrow> nat \<Rightarrow> document list \<Rightarrow> document list" where
  "update_approval astatus approver atime ident ds =
     map (\<lambda>d. if id_eq (doc_id d) ident
              then d\<lparr>approval_status := astatus, approved_by := Some approver,
                     approval_time := Some atime\<rparr>
              else d) ds"

text \<open>\<open>result.affectedRows\<close>: the rows the \<open>WHERE\<close> clause matched (mysql2 connects with
  the found-rows flag).\<close>

definition affectedRows :: "nat \<Rightarrow> document list \<Rightarrow> nat" where
  "affectedRows ident ds = length (filter (\<lambda>d. id_eq (doc_id d) ident) ds)"

definition approve_failed :: "string \<Rightarrow> state \<Rightarrow> state \<times> response" where
  "approve_failed msg st =
     (console_error ''Error updating approval status:'' msg st,
      Json 500 (Error ''Internal server error''))"

definition approve_notify :: "env \<Rightarrow> string \<Rightarrow> document \<Rightarrow> state \<Rightarrow> state" where
  "approve_notify e astatus doc st =
     (let (st1, senderEmail) = getUserEmailByUsername e (uploaded_by doc) st;
          reviewerEmail = REVIEWER_EMAIL e
      in if astatus = ''Approved''
         then (let st2 = sendApprovalNotification e [senderEmail] (document_name doc)
                           (uploaded_by doc) ''Approved'' (Some ''sender'') st1
               in sendApprovalNotification e [reviewerEmail] (document_name doc)
                    (uploaded_by doc) ''Pending Review'' (Some ''reviewer'') st2)
         else sendApprovalNotification e [senderEmail] (document_name doc)
                (uploaded_by doc) ''Unapproved'' None st1)"

definition put_approve :: "env \<Rightarrow> nat \<Rightarrow> string \<Rightarrow> string \<Rightarrow> state \<Rightarrow> state \<times> response" where
  "put_approve e ident astatus approver st =
     (case db_error e UpdateApproval of
        Some msg \<Rightarrow> approve_failed msg st
      | None \<Rightarrow>
          (let st1 = st\<lparr>documents :=
                         update_approval astatus approver (ist_date e) ident (documents st)\<rparr>
           in if affectedRows ident (documents st) = 0
              then (st1, Json 404 (Message ''Document not found''))
              else (case db_error e SelectDocumentById of
                      Some msg \<Rightarrow> approve_failed msg st1
                    | None \<Rightarrow>
                        (case filter (\<lambda>d. id_eq (doc_id d) ident) (documents st1) of
                           [] \<Rightarrow> (st1, Json 404 (Message ''Document not found after update''))
                         | doc # _ \<Rightarrow>
                             (approve_notify e astatus doc st1,
                              Json 200 (Message ''Approval status updated and notification sent''))))))"

subsection \<open>POST /upload\<close>

definition fileFilter :: "env \<Rightarrow> string \<Rightarrow> bool" where
  "fileFilter e originalname = (toLowerCase e (extname e originalname) = ''.pdf'')"

definition upload_failed :: "string \<Rightarrow> state \<Rightarrow> state \<times> response" where
  "upload_failed msg st =
     (console_error ''upload error:'' msg st,
      Json 500 (ErrorDetail ''Document upload failed'' msg))"

text \<open>\<open>fs.unlinkSync\<close> throws when the file is not there.\<close>

definition unlinkSync :: "string \<Rightarrow> state \<Rightarrow> string + state" where
  "unlinkSync p st =
     (if p \<in> uploads st then Inr (st\<lparr>uploads := uploads st - {p}\<rparr>)
      else Inl ''ENOENT: no such file or directory'')"

text \<open>The \<open>INSERT\<close> names six columns; the others are left to the table's defaults,
  \<open>NULL\<close> for the nullable columns of the data model.\<close>

definition insert_document ::
  "nat \<Rightarrow> string \<Rightarrow> string \<Rightarrow> string \<Rightarrow> timestamp \<Rightarrow> document list \<Rightarrow> document list" where
  "insert_document new_id documentName documentLink uploadedBy utime ds =
     ds @ [\<lparr>doc_id = new_id, document_name = documentName, document_link = documentLink,
            uploaded_by = uploadedBy, upload_time = utime,
            approval_status = ''Pending'', approved_by = None, approval_time = None,
            review_status = ''Pending'', reviewer = None, review_time = None\<rparr>]"

text \<open>The body of the route handler, run once multer has stored the file at \<open>localPath\<close>.\<close>

definition upload_handler :: "env \<Rightarrow> string \<Rightarrow> string \<Rightarrow> string \<Rightarrow> state \<Rightarrow> state \<times> response" where
  "upload_handler e uploadedBy documentName localPath st =
     (case drive_create e (date_now e @ ''-'' @ documentName) of
        Inl msg \<Rightarrow> upload_failed msg st
      | Inr fid \<Rightarrow>
          (let st1 = st\<lparr>drive := drive st @
                       [\<lparr>file_id = fid, file_name = date_now e @ ''-'' @ documentName,
                         parents = [SHAREDDRIVE e], public_reader = False\<rparr>]\<rparr>
           in case drive_permission_error e fid of
                Some msg \<Rightarrow> upload_failed msg st1
              | None \<Rightarrow>
                  (let st2 = st1\<lparr>drive := map (\<lambda>f. if file_id f = fid
                                                  then f\<lparr>public_reader := True\<rparr> else f)
                                            (drive st1)\<rparr>;
                       documentLink = ''https://drive.google.com/uc?id='' @ fid
                   in case db_error e InsertDocument of
                        Some msg \<Rightarrow> upload_failed msg st2
                      | None \<Rightarrow>
                          (let st3 = st2\<lparr>documents :=
                                           insert_document (auto_increment e) documentName
                                             documentLink uploadedBy (ist_date e) (documents st2)\<rparr>;
                               st4 = sendEmailNotification e documentName uploadedBy documentLink st3
                           in case unlinkSync localPath st4 of
                                Inl msg \<Rightarrow> upload_failed msg st4
                              | Inr st5 \<Rightarrow>
                                  (st5, Json 200 (SuccessMessage
                                     ''Document uploaded to Google Drive and saved''))))))"

text \<open>
  The route: \<open>upload.single("file")\<close>, then the handler. \<open>file\<close> is the original name of
  the uploaded part, \<open>None\<close> when the request has no such part. multer asks \<open>fileFilter\<close>
  before it stores anything: on an error it calls \<open>next(err)\<close> and the handler does not
  run; otherwise it writes the part to \<open>uploads/\<close> under the name built by \<open>filename\<close>.
  With no file, \<open>req.file\<close> is undefined and reading \<open>req.file.originalname\<close> throws
  before the \<open>try\<close>.
\<close>

definition post_upload :: "env \<Rightarrow> string option \<Rightarrow> string \<Rightarrow> state \<Rightarrow> state \<times> response" where
  "post_upload e file uploadedBy st =
     (case file of
        None \<Rightarrow> (st, Errored ''TypeError'')
      | Some originalname \<Rightarrow>
          if fileFilter e originalname
          then (let localPath = ''uploads/'' @ multer_date_now e @ ''-'' @ originalname
                in upload_handler e uploadedBy originalname localPath
                     (st\<lparr>uploads := insert localPath (uploads st)\<rparr>))
          else (st, Errored ''Only PDF files are allowed''))"

subsection \<open>The document views\<close>

text \<open>JavaScript's truthiness of a query parameter: absent and empty are falsy. The
  result is the key the \<open>WHERE\<close> clause is built with, if any.\<close>

definition truthy_key :: "string option \<Rightarrow> string option" where
  "truthy_key v = (case v of None \<Rightarrow> None | Some s \<Rightarrow> if s = [] then None else Some s)"

text \<open>\<open>GET /documents\<close>, the modern view.\<close>

definition get_documents :: "env \<Rightarrow> string option \<Rightarrow> state \<Rightarrow> state \<times> response" where
  "get_documents e uploadedBy st =
     (case db_error e SelectDocumentsByUploader of
        Some msg \<Rightarrow> (st, Json 500 (Error ''Error fetching documents''))
      | None \<Rightarrow>
          (st, Json 200 (Rows (case truthy_key uploadedBy of
                                 Some k \<Rightarrow> filter (\<lambda>d. sql_eq (uploaded_by d) k) (documents st)
                               | None \<Rightarrow> documents st))))"

text \<open>
  MySQL's \<open>LIKE\<close> with the default escape character: in the pattern \<open>%\<close> stands for any
  run of characters, \<open>_\<close> for any one character, and a backslash makes the character
  after it literal. Characters are compared as \<open>sql_eq\<close> compares them.
\<close>

fun sql_like :: "string \<Rightarrow> string \<Rightarrow> bool" where
  "sql_like [] s = (s = [])"
| "sql_like (p # ps) s =
     (if p = CHR ''%'' then
        (sql_like ps s \<or> (case s of [] \<Rightarrow> False | _ # cs \<Rightarrow> sql_like (p # ps) cs))
      else if p = CHR ''_'' then
        (case s of [] \<Rightarrow> False | _ # cs \<Rightarrow> sql_like ps cs)
      else if p = CHR 0x5C then
        (case ps of
           [] \<Rightarrow> s = [p]
         | q # qs \<Rightarrow> (case s of [] \<Rightarrow> False | c # cs \<Rightarrow> c = q \<and> sql_like qs cs))
      else (case s of [] \<Rightarrow> False | c # cs \<Rightarrow> c = p \<and> sql_like ps cs))"

text \<open>\<open>GET /api/document\<close>, the legacy view, through \<open>queryWithCallback\<close>.\<close>

definition get_api_document :: "env \<Rightarrow> string option \<Rightarrow> state \<Rightarrow> state \<times> response" where
  "get_api_document e uploader st =
     (case db_error e SelectDocumentsLike of
        Some msg \<Rightarrow> (st, Json 500 (Sent msg))
      | None \<Rightarrow>
          (st, Json 200 (Rows (case truthy_key uploader of
                                 Some k \<Rightarrow> filter (\<lambda>d. sql_like (''%'' @ k @ ''%'') (uploaded_by d))
                                            (documents st)
                               | None \<Rightarrow> documents st))))"

subsection \<open>POST /verify-otp\<close>

text \<open>
  \<open>otpStore\<close> maps an email to its current code; reading an email without a code gives
  \<open>undefined\<close>, here \<open>None\<close>. \<open>enteredOtp\<close> is the field of the request body, \<open>None\<close> when
  the body has no such field. \<open>===\<close> on these values is equality. The store holds the
  codes set by \<open>POST /send-otp\<close>; the property names every object inherits from its
  prototype are not emails and are left out.
\<close>

definition post_verify_otp :: "string \<Rightarrow> string option \<Rightarrow> state \<Rightarrow> state \<times> response" where
  "post_verify_otp email_key enteredOtp st =
     (let validOtp = otpStore st email_key
      in if enteredOtp = validOtp
         then (st\<lparr>otpStore := (otpStore st)(email_key := None)\<rparr>,
               Json 200 (Message ''OTP verified successfully''))
         else (st, Json 400 (Message ''Invalid OTP'')))"

section \<open>Concrete requests\<close>

text \<open>
  An environment in which every external call succeeds, with stand-ins for Node's
  \<open>path.extname\<close> (the part of a file name from its last dot) and \<open>toLowerCase\<close> (on the
  letters A to Z), and a state with one user and two of her documents, one approved and
  one pending.
\<close>

definition lower_char :: "char \<Rightarrow> char" where
  "lower_char c =
     (case map_of (zip ''ABCDEFGHIJKLMNOPQRSTUVWXYZ'' ''abcdefghijklmnopqrstuvwxyz'') c of
        None \<Rightarrow> c
      | Some l \<Rightarrow> l)"

definition ext_from_last_dot :: "string \<Rightarrow> string" where
  "ext_from_last_dot s =
     (if CHR ''.'' \<in> set s then CHR ''.'' # rev (takeWhile (\<lambda>c. c \<noteq> CHR ''.'') (rev s)) else [])"

definition env_ok :: env where
  "env_ok =
     \<lparr>EMAIL_USER = Some ''noreply@x.com'',
      APPROVER_EMAIL = Some ''bob@x.com'',
      REVIEWER_EMAIL = Some ''carol@x.com'',
      SHAREDDRIVE = Some ''folder'',
      multer_date_now = ''1700000000000'',
      date_now = ''1700000000002'',
      ist_date = 20,
      new_date = 30,
      mail_error = (\<lambda>m. None),
      db_error = (\<lambda>q. None),
      drive_create = (\<lambda>n. Inr ''f1''),
      drive_permission_error = (\<lambda>f. None),
      auto_increment = 3,
      extname = ext_from_last_dot,
      toLowerCase = map lower_char\<rparr>"

text \<open>The same environment with a mail relay that rejects every message.\<close>

definition env_mail_down :: env where
  "env_mail_down = env_ok\<lparr>mail_error := (\<lambda>m. Some ''ECONNREFUSED'')\<rparr>"

definition doc_approved :: document where
  "doc_approved =
     \<lparr>doc_id = 1, document_name = ''a.pdf'', document_link = ''https://drive.google.com/uc?id=a'',
      uploaded_by = ''alice'', upload_time = 10,
      approval_status = ''Approved'', approved_by = Some ''bob'', approval_time = Some 11,
      review_status = ''Pending'', reviewer = None, review_time = None\<rparr>"

definition doc_pending :: document where
  "doc_pending =
     \<lparr>doc_id = 2, document_name = ''b.pdf'', document_link = ''https://drive.google.com/uc?id=b'',
      uploaded_by = ''alice'', upload_time = 12,
      approval_status = ''Pending'', approved_by = None, approval_time = None,
      review_status = ''Pending'', reviewer = None, review_time = None\<rparr>"

definition st_alice :: state where
  "st_alice =
     \<lparr>documents = [doc_approved, doc_pending],
      users = [\<lparr>username = ''alice'', email = ''alice@x.com''\<rparr>],
      otpStore = Map.empty,
      drive = [],
      uploads = {},
      outbox = [],
      console = []\<rparr>"

text \<open>The same state when the \<open>users\<close> table has no row for the uploader of the two
  documents.\<close>

definition st_no_user :: state where
  "st_no_user = st_alice\<lparr>users := []\<rparr>"

section \<open>Properties\<close>

subsection \<open>What the helpers leave alone\<close>

lemma documents_console_error [simp]: "documents (console_error a b st) = documents st"
  by (simp add: console_error_def)

lemma documents_console_log [simp]: "documents (console_log a st) = documents st"
  by (simp add: console_log_def)

lemma documents_getUserEmailByUsername [simp]:
  "documents (fst (getUserEmailByUsername e n st)) = documents st"
  by (simp add: getUserEmailByUsername_def split: option.splits list.splits)

lemma documents_sendMail [simp]: "documents (fst (sendMail e m st)) = documents st"
  by (simp add: sendMail_def)

lemma documents_put_review:
  "documents (fst (put_review e uploader rstatus rvw st)) =
     (case db_error e UpdateReview of
        Some msg \<Rightarrow> documents st
      | None \<Rightarrow> update_review rstatus rvw (new_date e) uploader (documents st))"
  by (simp add: put_review_def review_failed_def Let_def split_beta split: option.splits)

lemma length_update_review [simp]: "length (update_review s r t u ds) = length ds"
  by (simp add: update_review_def)

lemma nth_update_review:
  "i < length ds \<Longrightarrow>
   update_review s r t u ds ! i =
     (if uploaded_by (ds ! i) = u \<and> approval_status (ds ! i) = ''Approved''
      then (ds ! i)\<lparr>review_status := s, reviewer := Some r, review_time := Some t\<rparr>
      else ds ! i)"
  by (simp add: update_review_def review_where_def sql_eq_def)

lemma update_review_no_match:
  "\<forall>d\<in>set ds. \<not> (uploaded_by d = u \<and> approval_status d = ''Approved'') \<Longrightarrow>
   update_review s r t u ds = ds"
  by (induction ds) (auto simp: update_review_def review_where_def sql_eq_def)

lemma response_put_review_ok:
  "db_error e UpdateReview = None \<Longrightarrow>
   mail_error e (review_mail e (snd (getUserEmailByUsername e uploader
       (st\<lparr>documents := update_review rstatus rvw (new_date e) uploader (documents st)\<rparr>)))
       uploader rstatus rvw) = None \<Longrightarrow>
   snd (put_review e uploader rstatus rvw st) =
     Json 200 (Message ''Review status updated and notification sent.'')"
  by (simp add: put_review_def Let_def split_beta sendMail_def)

lemma sender_email_indep:
  "snd (getUserEmailByUsername e n (st\<lparr>documents := ds\<rparr>)) = snd (getUserEmailByUsername e n st)"
  by (simp add: getUserEmailByUsername_def split: option.splits list.splits)

text \<open>
  Claim C1. The review transition \<open>PUT /api/review\<close> changes the \<open>documents\<close> table only
  in the rows of the given uploader whose \<open>approval_status\<close> is \<open>Approved\<close>: the table keeps
  its length, every other row (pending, or of any other status or uploader) is as it was,
  and, when the database executes the \<open>UPDATE\<close>, each matching row gets the new
  \<open>review_status\<close>, \<open>reviewer\<close> and \<open>review_time\<close> and keeps its other columns. With no
  matching row the table is unchanged and the request is not an error: if the \<open>UPDATE\<close>
  and the mail are accepted, the answer is the success message.
\<close>

theorem review_frame:
  "length (documents (fst (put_review e uploader rstatus rvw st))) = length (documents st) \<and>
   (\<forall>i < length (documents st).
      \<not> (uploaded_by (documents st ! i) = uploader \<and>
         approval_status (documents st ! i) = ''Approved'') \<longrightarrow>
      documents (fst (put_review e uploader rstatus rvw st)) ! i = documents st ! i) \<and>
   (db_error e UpdateReview = None \<longrightarrow>
      (\<forall>i < length (documents st).
         uploaded_by (documents st ! i) = uploader \<and>
         approval_status (documents st ! i) = ''Approved'' \<longrightarrow>
         documents (fst (put_review e uploader rstatus rvw st)) ! i =
           (documents st ! i)\<lparr>review_status := rstatus, reviewer := Some rvw,
                                review_time := Some (new_date e)\<rparr>)) \<and>
   ((\<forall>d \<in> set (documents st).
        \<not> (uploaded_by d = uploader \<and> approval_status d = ''Approved'')) \<longrightarrow>
      documents (fst (put_review e uploader rstatus rvw st)) = documents st \<and>
      (db_error e UpdateReview = None \<and>
       mail_error e (review_mail e (snd (getUserEmailByUsername e uploader st))
                       uploader rstatus rvw) = None \<longrightarrow>
       snd (put_review e uploader rstatus rvw st) =
         Json 200 (Message ''Review status updated and notification sent.'')))"
proof (intro conjI allI impI)
  show "length (documents (fst (put_review e uploader rstatus rvw st))) = length (documents st)"
    by (simp add: documents_put_review split: option.splits)
next
  fix i
  assume "i < length (documents st)"
    and "\<not> (uploaded_by (documents st ! i) = uploader \<and>
            approval_status (documents st ! i) = ''Approved'')"
  then show "documents (fst (put_review e uploader rstatus rvw st)) ! i = documents st ! i"
    by (auto simp: documents_put_review nth_update_review split: option.splits)
next
  fix i
  assume "db_error e UpdateReview = None" and "i < length (documents st)"
    and "uploaded_by (documents st ! i) = uploader \<and>
         approval_status (documents st ! i) = ''Approved''"
  then show "documents (fst (put_review e uploader rstatus rvw st)) ! i =
           (documents st ! i)\<lparr>review_status := rstatus, reviewer := Some rvw,
                                review_time := Some (new_date e)\<rparr>"
    by (simp add: documents_put_review nth_update_review)
next
  assume none: "\<forall>d \<in> set (documents st).
        \<not> (uploaded_by d = uploader \<and> approval_status d = ''Approved'')"
  then show "documents (fst (put_review e uploader rstatus rvw st)) = documents st"
    by (simp add: documents_put_review update_review_no_match split: option.splits)
next
  assume "db_error e UpdateReview = None \<and>
       mail_error e (review_mail e (snd (getUserEmailByUsername e uploader st))
                       uploader rstatus rvw) = None"
  then show "snd (put_review e uploader rstatus rvw st) =
         Json 200 (Message ''Review status updated and notification sent.'')"
    by (simp add: response_put_review_ok sender_email_indep)
qed


theorem review_frame_witness:
  "db_error env_ok UpdateReview = None \<and>
   (0::nat) < length (documents st_alice) \<and>
   uploaded_by (documents st_alice ! 0) = ''alice'' \<and>
   approval_status (documents st_alice ! 0) = ''Approved'' \<and>
   documents (fst (put_review env_ok ''alice'' ''Approved'' ''carol'' st_alice)) ! 0 =
     doc_approved\<lparr>review_status := ''Approved'', reviewer := Some ''carol'',
                   review_time := Some 30\<rparr> \<and>
   (1::nat) < length (documents st_alice) \<and>
   \<not> (uploaded_by (documents st_alice ! 1) = ''alice'' \<and>
      approval_status (documents st_alice ! 1) = ''Approved'') \<and>
   documents (fst (put_review env_ok ''alice'' ''Approved'' ''carol'' st_alice)) ! 1 = doc_pending \<and>
   filter (\<lambda>d. uploaded_by d = ''zoe'' \<and> approval_status d = ''Approved'')
     (documents st_alice) = [] \<and>
   mail_error env_ok (review_mail env_ok (snd (getUserEmailByUsername env_ok ''zoe'' st_alice))
                        ''zoe'' ''Rejected'' ''carol'') = None \<and>
   documents (fst (put_review env_ok ''zoe'' ''Rejected'' ''carol'' st_alice)) =
     [doc_approved, doc_pending] \<and>
   snd (put_review env_ok ''zoe'' ''Rejected'' ''carol'' st_alice) =
     Json 200 (Message ''Review status updated and notification sent.'')"
proof -
  note alice = review_frame [of env_ok "''alice''" "''Approved''" "''carol''" st_alice]
  note zoe = review_frame [of env_ok "''zoe''" "''Rejected''" "''carol''" st_alice]
  have db: "db_error env_ok UpdateReview = None"
    by (simp add: env_ok_def)
  have row0: "(0::nat) < length (documents st_alice) \<and>
      uploaded_by (documents st_alice ! 0) = ''alice'' \<and>
      approval_status (documents st_alice ! 0) = ''Approved''"
    by (simp add: st_alice_def doc_approved_def)
  have row1: "(1::nat) < length (documents st_alice) \<and>
      \<not> (uploaded_by (documents st_alice ! 1) = ''alice'' \<and>
         approval_status (documents st_alice ! 1) = ''Approved'')"
    by (simp add: st_alice_def doc_pending_def)
  have none: "\<forall>d \<in> set (documents st_alice).
      \<not> (uploaded_by d = ''zoe'' \<and> approval_status d = ''Approved'')"
    by (simp add: st_alice_def doc_approved_def doc_pending_def)
  have mail: "mail_error env_ok (review_mail env_ok
      (snd (getUserEmailByUsername env_ok ''zoe'' st_alice)) ''zoe'' ''Rejected'' ''carol'') = None"
    by (simp add: env_ok_def)
  have "documents (fst (put_review env_ok ''alice'' ''Approved'' ''carol'' st_alice)) ! 0 =
      (documents st_alice ! 0)\<lparr>review_status := ''Approved'', reviewer := Some ''carol'',
                                 review_time := Some (new_date env_ok)\<rparr>"
    using alice db row0 by blast
  then have r0: "documents (fst (put_review env_ok ''alice'' ''Approved'' ''carol'' st_alice)) ! 0 =
      doc_approved\<lparr>review_status := ''Approved'', reviewer := Some ''carol'',
                    review_time := Some 30\<rparr>"
    by (simp add: st_alice_def env_ok_def)
  have "documents (fst (put_review env_ok ''alice'' ''Approved'' ''carol'' st_alice)) ! 1 =
      documents st_alice ! 1"
    using alice row1 by blast
  then have r1: "documents (fst (put_review env_ok ''alice'' ''Approved'' ''carol'' st_alice)) ! 1 =
      doc_pending"
    by (simp add: st_alice_def)
  have "documents (fst (put_review env_ok ''zoe'' ''Rejected'' ''carol'' st_alice)) =
      documents st_alice"
    using zoe none by blast
  then have z0: "documents (fst (put_review env_ok ''zoe'' ''Rejected'' ''carol'' st_alice)) =
      [doc_approved, doc_pending]"
    by (simp add: st_alice_def)
  have z1: "snd (put_review env_ok ''zoe'' ''Rejected'' ''carol'' st_alice) =
      Json 200 (Message ''Review status updated and notification sent.'')"
    using zoe none db mail by blast
  have none': "filter (\<lambda>d. uploaded_by d = ''zoe'' \<and> approval_status d = ''Approved'')
      (documents st_alice) = []"
    using none by (simp add: filter_empty_conv)
  from db row0 row1 none' mail r0 r1 z0 z1 show ?thesis
    by blast
qed


subsection \<open>PUT /api/approve/:id\<close>

lemma documents_sendApprovalNotification [simp]:
  "documents (sendApprovalNotification e tos n u s r st) = documents st"
  by (simp add: sendApprovalNotification_def split_beta split: option.splits)

lemma documents_approve_notify [simp]:
  "documents (approve_notify e astatus doc st) = documents st"
  by (simp add: approve_notify_def Let_def split_beta)

lemma documents_put_approve:
  "documents (fst (put_approve e ident astatus approver st)) =
     (case db_error e UpdateApproval of
        Some msg \<Rightarrow> documents st
      | None \<Rightarrow> update_approval astatus approver (ist_date e) ident (documents st))"
  by (simp add: put_approve_def approve_failed_def Let_def split: option.splits list.splits)

lemma length_update_approval [simp]: "length (update_approval s a t i ds) = length ds"
  by (simp add: update_approval_def)

lemma nth_update_approval:
  "i < length ds \<Longrightarrow>
   update_approval s a t ident ds ! i =
     (if doc_id (ds ! i) = ident
      then (ds ! i)\<lparr>approval_status := s, approved_by := Some a, approval_time := Some t\<rparr>
      else ds ! i)"
  by (simp add: update_approval_def id_eq_def)

lemma update_approval_no_match:
  "\<forall>d\<in>set ds. doc_id d \<noteq> ident \<Longrightarrow> update_approval s a t ident ds = ds"
  by (induction ds) (auto simp: update_approval_def id_eq_def)

lemma affectedRows_zero:
  "affectedRows ident ds = 0 \<longleftrightarrow> (\<forall>d\<in>set ds. doc_id d \<noteq> ident)"
  by (auto simp: affectedRows_def id_eq_def filter_empty_conv)

lemma put_approve_not_found:
  assumes "db_error e UpdateApproval = None" and "\<forall>d\<in>set (documents st). doc_id d \<noteq> ident"
  shows "put_approve e ident astatus approver st = (st, Json 404 (Message ''Document not found''))"
  using assms by (simp add: put_approve_def affectedRows_zero update_approval_no_match)

lemma outbox_console_error [simp]: "outbox (console_error a b st) = outbox st"
  by (simp add: console_error_def)

lemma outbox_console_log [simp]: "outbox (console_log a st) = outbox st"
  by (simp add: console_log_def)

lemma outbox_getUserEmailByUsername [simp]:
  "outbox (fst (getUserEmailByUsername e n st)) = outbox st"
  by (simp add: getUserEmailByUsername_def split: option.splits list.splits)

lemma sender_email_documents [simp]:
  "snd (getUserEmailByUsername e n (st\<lparr>documents := ds\<rparr>)) = snd (getUserEmailByUsername e n st)"
  by (simp add: getUserEmailByUsername_def split: option.splits list.splits)

lemma sender_email_resolves:
  assumes "db_error e SelectEmailByUsername = None"
    and "filter (\<lambda>u. username u = name) (users st) = u0 # others"
  shows "snd (getUserEmailByUsername e name st) = Some (email u0)"
  using assms by (simp add: getUserEmailByUsername_def sql_eq_def)

lemma sender_email_unresolved:
  assumes "db_error e SelectEmailByUsername \<noteq> None \<or>
           filter (\<lambda>u. username u = name) (users st) = []"
  shows "snd (getUserEmailByUsername e name st) = None"
  using assms by (auto simp: getUserEmailByUsername_def sql_eq_def split: option.splits)

lemma outbox_sendApprovalNotification [simp]:
  "outbox (sendApprovalNotification e tos n u s r st) =
     outbox st @ [approval_mail e tos n u s r]"
  by (simp add: sendApprovalNotification_def sendMail_def split: option.splits)

lemma outbox_approve_notify:
  "outbox (approve_notify e astatus doc st) =
     outbox st @
     (if astatus = ''Approved''
      then [approval_mail e [snd (getUserEmailByUsername e (uploaded_by doc) st)]
              (document_name doc) (uploaded_by doc) ''Approved'' (Some ''sender''),
            approval_mail e [REVIEWER_EMAIL e]
              (document_name doc) (uploaded_by doc) ''Pending Review'' (Some ''reviewer'')]
      else [approval_mail e [snd (getUserEmailByUsername e (uploaded_by doc) st)]
              (document_name doc) (uploaded_by doc) ''Unapproved'' None])"
  by (simp add: approve_notify_def Let_def split_beta)

lemma filter_update_approval:
  "filter (\<lambda>d. id_eq (doc_id d) ident) ds = d0 # rest \<Longrightarrow>
   \<exists>rest'. filter (\<lambda>d. id_eq (doc_id d) ident) (update_approval s a t ident ds) =
     d0\<lparr>approval_status := s, approved_by := Some a, approval_time := Some t\<rparr> # rest'"
proof (induction ds)
  case Nil
  then show ?case by simp
next
  case (Cons d ds)
  then show ?case
    by (cases "id_eq (doc_id d) ident") (auto simp: update_approval_def id_eq_def)
qed

lemma put_approve_found:
  assumes db: "db_error e UpdateApproval = None" "db_error e SelectDocumentById = None"
    and found: "filter (\<lambda>d. doc_id d = ident) (documents st) = d0 # rest"
  shows "put_approve e ident astatus approver st =
     (approve_notify e astatus
        (d0\<lparr>approval_status := astatus, approved_by := Some approver,
             approval_time := Some (ist_date e)\<rparr>)
        (st\<lparr>documents := update_approval astatus approver (ist_date e) ident (documents st)\<rparr>),
      Json 200 (Message ''Approval status updated and notification sent''))"
proof -
  from found have f: "filter (\<lambda>d. id_eq (doc_id d) ident) (documents st) = d0 # rest"
    by (simp add: id_eq_def)
  then have rows: "affectedRows ident (documents st) \<noteq> 0"
    by (simp add: affectedRows_def)
  from filter_update_approval [OF f] obtain rest' where
    "filter (\<lambda>d. id_eq (doc_id d) ident)
       (update_approval astatus approver (ist_date e) ident (documents st)) =
     d0\<lparr>approval_status := astatus, approved_by := Some approver,
         approval_time := Some (ist_date e)\<rparr> # rest'"
    by blast
  with db rows show ?thesis
    by (simp add: put_approve_def)
qed

lemma outbox_put_approve_found:
  assumes "db_error e UpdateApproval = None" "db_error e SelectDocumentById = None"
    and "filter (\<lambda>d. doc_id d = ident) (documents st) = d0 # rest"
  shows "outbox (fst (put_approve e ident astatus approver st)) =
     outbox st @
     (if astatus = ''Approved''
      then [approval_mail e [snd (getUserEmailByUsername e (uploaded_by d0) st)]
              (document_name d0) (uploaded_by d0) ''Approved'' (Some ''sender''),
            approval_mail e [REVIEWER_EMAIL e]
              (document_name d0) (uploaded_by d0) ''Pending Review'' (Some ''reviewer'')]
      else [approval_mail e [snd (getUserEmailByUsername e (uploaded_by d0) st)]
              (document_name d0) (uploaded_by d0) ''Unapproved'' None])"
  by (simp add: put_approve_found [OF assms] outbox_approve_notify)

text \<open>
  Claim C4. The approval transition \<open>PUT /api/approve/:id\<close>, when the database executes
  its \<open>UPDATE\<close>, sets \<open>approval_status\<close>, \<open>approved_by\<close> and \<open>approval_time\<close> together, in
  one step, on every row with the given identifier, whatever these columns held before
  (so a second approval overwrites all three), and leaves every other row and column as
  it was. When no row has the identifier, no document is modified and the answer is 404
  \<open>Document not found\<close> with the whole state unchanged; and that answer is only given when
  no row has the identifier.
\<close>

theorem approve_sets_three_or_not_found:
  "length (documents (fst (put_approve e ident astatus approver st))) = length (documents st) \<and>
   (db_error e UpdateApproval = None \<longrightarrow>
      (\<forall>i < length (documents st).
         documents (fst (put_approve e ident astatus approver st)) ! i =
           (if doc_id (documents st ! i) = ident
            then (documents st ! i)\<lparr>approval_status := astatus, approved_by := Some approver,
                                      approval_time := Some (ist_date e)\<rparr>
            else documents st ! i))) \<and>
   ((\<forall>d \<in> set (documents st). doc_id d \<noteq> ident) \<longrightarrow>
      documents (fst (put_approve e ident astatus approver st)) = documents st \<and>
      (db_error e UpdateApproval = None \<longrightarrow>
         put_approve e ident astatus approver st =
           (st, Json 404 (Message ''Document not found'')))) \<and>
   (snd (put_approve e ident astatus approver st) = Json 404 (Message ''Document not found'') \<longrightarrow>
      (\<forall>d \<in> set (documents st). doc_id d \<noteq> ident))"
proof (intro conjI allI impI)
  show "length (documents (fst (put_approve e ident astatus approver st))) = length (documents st)"
    by (simp add: documents_put_approve split: option.splits)
next
  fix i
  assume "db_error e UpdateApproval = None" and "i < length (documents st)"
  then show "documents (fst (put_approve e ident astatus approver st)) ! i =
           (if doc_id (documents st ! i) = ident
            then (documents st ! i)\<lparr>approval_status := astatus, approved_by := Some approver,
                                      approval_time := Some (ist_date e)\<rparr>
            else documents st ! i)"
    by (simp add: documents_put_approve nth_update_approval)
next
  assume "\<forall>d \<in> set (documents st). doc_id d \<noteq> ident"
  then show "documents (fst (put_approve e ident astatus approver st)) = documents st"
    by (simp add: documents_put_approve update_approval_no_match split: option.splits)
next
  assume "\<forall>d \<in> set (documents st). doc_id d \<noteq> ident" and "db_error e UpdateApproval = None"
  then show "put_approve e ident astatus approver st =
           (st, Json 404 (Message ''Document not found''))"
    by (simp add: put_approve_not_found)
next
  assume "snd (put_approve e ident astatus approver st) = Json 404 (Message ''Document not found'')"
  then show "\<forall>d \<in> set (documents st). doc_id d \<noteq> ident"
    by (simp add: put_approve_def approve_failed_def Let_def affectedRows_zero
        split: option.splits if_splits list.splits)
qed


theorem approve_sets_three_or_not_found_witness:
  "db_error env_ok UpdateApproval = None \<and>
   (0::nat) < length (documents st_alice) \<and>
   documents (fst (put_approve env_ok 1 ''Unapproved'' ''dan'' st_alice)) ! 0 =
     doc_approved\<lparr>approval_status := ''Unapproved'', approved_by := Some ''dan'',
                   approval_time := Some 20\<rparr> \<and>
   (1::nat) < length (documents st_alice) \<and>
   documents (fst (put_approve env_ok 1 ''Unapproved'' ''dan'' st_alice)) ! 1 = doc_pending \<and>
   filter (\<lambda>d. doc_id d = 7) (documents st_alice) = [] \<and>
   put_approve env_ok 7 ''Approved'' ''bob'' st_alice =
     (st_alice, Json 404 (Message ''Document not found''))"
proof -
  note one = approve_sets_three_or_not_found [of env_ok 1 "''Unapproved''" "''dan''" st_alice]
  note seven = approve_sets_three_or_not_found [of env_ok 7 "''Approved''" "''bob''" st_alice]
  have db: "db_error env_ok UpdateApproval = None"
    by (simp add: env_ok_def)
  have len: "(0::nat) < length (documents st_alice)" "(1::nat) < length (documents st_alice)"
    by (simp_all add: st_alice_def)
  have "documents (fst (put_approve env_ok 1 ''Unapproved'' ''dan'' st_alice)) ! 0 =
      (if doc_id (documents st_alice ! 0) = 1
       then (documents st_alice ! 0)\<lparr>approval_status := ''Unapproved'',
              approved_by := Some ''dan'', approval_time := Some (ist_date env_ok)\<rparr>
       else documents st_alice ! 0)"
    using one db len(1) by blast
  then have r0: "documents (fst (put_approve env_ok 1 ''Unapproved'' ''dan'' st_alice)) ! 0 =
      doc_approved\<lparr>approval_status := ''Unapproved'', approved_by := Some ''dan'',
                    approval_time := Some 20\<rparr>"
    by (simp add: st_alice_def doc_approved_def env_ok_def)
  have "documents (fst (put_approve env_ok 1 ''Unapproved'' ''dan'' st_alice)) ! 1 =
      (if doc_id (documents st_alice ! 1) = 1
       then (documents st_alice ! 1)\<lparr>approval_status := ''Unapproved'',
              approved_by := Some ''dan'', approval_time := Some (ist_date env_ok)\<rparr>
       else documents st_alice ! 1)"
    using one db len(2) by blast
  then have r1: "documents (fst (put_approve env_ok 1 ''Unapproved'' ''dan'' st_alice)) ! 1 =
      doc_pending"
    by (simp add: st_alice_def doc_pending_def)
  have none: "\<forall>d \<in> set (documents st_alice). doc_id d \<noteq> 7"
    by (simp add: st_alice_def doc_approved_def doc_pending_def)
  then have none': "filter (\<lambda>d. doc_id d = 7) (documents st_alice) = []"
    by (simp add: filter_empty_conv)
  have nf: "put_approve env_ok 7 ''Approved'' ''bob'' st_alice =
      (st_alice, Json 404 (Message ''Document not found''))"
    using seven none db by blast
  from db len r0 r1 none' nf show ?thesis
    by blast
qed

lemma approval_templates_differ:
  "approval_subject (Some ''sender'') n s1 \<noteq> approval_subject (Some ''reviewer'') n s2"
  "approval_html (Some ''sender'') n u s1 \<noteq> approval_html (Some ''reviewer'') n u s2"
  by (simp_all add: approval_subject_def approval_html_def emoji_check_def emoji_page_def nl_def)

lemma alice_fixture:
  "db_error env_ok UpdateApproval = None"
  "db_error env_ok SelectDocumentById = None"
  "filter (\<lambda>d. doc_id d = 1) (documents st_alice) = [doc_approved]"
  "filter (\<lambda>d. doc_id d = 2) (documents st_alice) = [doc_pending]"
  "snd (getUserEmailByUsername env_ok ''alice'' st_alice) = Some ''alice@x.com''"
  "REVIEWER_EMAIL env_ok = Some ''carol@x.com''"
  "outbox st_alice = []"
  "uploaded_by doc_approved = ''alice''" "document_name doc_approved = ''a.pdf''"
  "uploaded_by doc_pending = ''alice''" "document_name doc_pending = ''b.pdf''"
  by (simp_all add: env_ok_def st_alice_def doc_approved_def doc_pending_def
      getUserEmailByUsername_def sql_eq_def)

lemma approve_mails_written_out:
  "approval_mail e tos n u s (Some ''sender'') =
     \<lparr>mail_from = EMAIL_USER e, mail_to = tos,
      subject = emoji_check @ '' Your document '' @ dquote @ n @ dquote @ '' has been approved'',
      html = nl @ ''      <h3>Good news!</h3>'' @ nl @
             ''      <p>Your document <strong>'' @ n @ ''</strong> uploaded by <strong>'' @ u @
             ''</strong> has been approved by the approver.</p>'' @ nl @
             ''      <p>It will now be reviewed by the reviewer.</p>'' @ nl @
             ''    ''\<rparr>"
  "approval_mail e tos n u s (Some ''reviewer'') =
     \<lparr>mail_from = EMAIL_USER e, mail_to = tos,
      subject = emoji_page @ '' New Document '' @ dquote @ n @ dquote @ '' Needs Your Review'',
      html = nl @ ''      <h3>Document Ready for Review</h3>'' @ nl @
             ''      <p>A new document <strong>'' @ n @ ''</strong> uploaded by <strong>'' @ u @
             ''</strong> has been approved and is ready for your review.</p>'' @ nl @
             ''      <p>Please log in to the system and take necessary action.</p>'' @ nl @
             ''    ''\<rparr>"
  "approval_mail e tos n u s None =
     \<lparr>mail_from = EMAIL_USER e, mail_to = tos,
      subject = emoji_page @ '' Document '' @ dquote @ n @ dquote @ '' Status: '' @ s,
      html = nl @ ''      <h3>Document Status Update</h3>'' @ nl @
             ''      <p><strong>'' @ n @ ''</strong> uploaded by <strong>'' @ u @
             ''</strong> is now marked as: <strong>'' @ s @ ''</strong>.</p>'' @ nl @
             ''    ''\<rparr>"
  by (simp_all add: approval_mail_def approval_subject_def approval_html_def)

lemma no_user_fixture:
  "db_error env_ok UpdateApproval = None"
  "db_error env_ok SelectDocumentById = None"
  "filter (\<lambda>d. doc_id d = 1) (documents st_no_user) = [doc_approved]"
  "filter (\<lambda>d. doc_id d = 2) (documents st_no_user) = [doc_pending]"
  "filter (\<lambda>u. username u = uploaded_by doc_approved) (users st_no_user) = []"
  "filter (\<lambda>u. username u = uploaded_by doc_pending) (users st_no_user) = []"
  "outbox st_no_user = []"
  by (simp_all add: env_ok_def st_no_user_def st_alice_def doc_approved_def doc_pending_def)

lemma alice_user_fixture:
  "db_error env_ok SelectEmailByUsername = None"
  "filter (\<lambda>u. username u = uploaded_by doc_pending) (users st_alice) =
     [\<lparr>username = ''alice'', email = ''alice@x.com''\<rparr>]"
  "filter (\<lambda>u. username u = uploaded_by doc_approved) (users st_alice) =
     [\<lparr>username = ''alice'', email = ''alice@x.com''\<rparr>]"
  "EMAIL_USER env_ok = Some ''noreply@x.com''"
  by (simp_all add: env_ok_def st_alice_def doc_approved_def doc_pending_def)

text \<open>
  Claim C2, as stated, fails where the \<open>users\<close> table has no row for the document's
  uploader: \<open>getUserEmailByUsername\<close> returns \<open>null\<close>, and the message meant for the
  uploader is handed to the relay with \<open>null\<close> as its only recipient, on the approved
  branch and on the other.
\<close>

theorem approve_uploader_without_user_counterexample:
  "filter (\<lambda>d. doc_id d = 2) (documents st_no_user) = [doc_pending] \<and>
   filter (\<lambda>u. username u = uploaded_by doc_pending) (users st_no_user) = [] \<and>
   map mail_to (outbox (fst (put_approve env_ok 2 ''Approved'' ''bob'' st_no_user))) =
     [[None], [Some ''carol@x.com'']] \<and>
   filter (\<lambda>d. doc_id d = 1) (documents st_no_user) = [doc_approved] \<and>
   filter (\<lambda>u. username u = uploaded_by doc_approved) (users st_no_user) = [] \<and>
   map mail_to (outbox (fst (put_approve env_ok 1 ''Unapproved'' ''bob'' st_no_user))) = [[None]]"
proof -
  have s2: "snd (getUserEmailByUsername env_ok (uploaded_by doc_pending) st_no_user) = None"
    by (rule sender_email_unresolved) (simp add: no_user_fixture)
  have s1: "snd (getUserEmailByUsername env_ok (uploaded_by doc_approved) st_no_user) = None"
    by (rule sender_email_unresolved) (simp add: no_user_fixture)
  note sent2 = outbox_put_approve_found [OF no_user_fixture(1,2,4), of "''Approved''" "''bob''"]
  note sent1 = outbox_put_approve_found [OF no_user_fixture(1,2,3), of "''Unapproved''" "''bob''"]
  have two: "map mail_to (outbox (fst (put_approve env_ok 2 ''Approved'' ''bob'' st_no_user))) =
      [[None], [Some ''carol@x.com'']]"
    unfolding sent2 s2 by (simp add: no_user_fixture(7) approval_mail_def alice_fixture(6))
  have one: "map mail_to (outbox (fst (put_approve env_ok 1 ''Unapproved'' ''bob'' st_no_user))) =
      [[None]]"
    unfolding sent1 s1 by (simp add: no_user_fixture(7) approval_mail_def)
  from two one no_user_fixture(3-6) show ?thesis
    by blast
qed

text \<open>
  Claim C2, amended. When the approval transition finds a document with the given
  identifier (and the database executes the \<open>UPDATE\<close> and the \<open>SELECT\<close> that follows it),
  the messages it hands to the mail relay are: for the decision \<open>Approved\<close>, exactly two,
  the first with the sender template and the second, to the reviewer's address, with the
  reviewer template, which differ in subject and in body whatever the document and the
  status; for any other decision, exactly one, with the status template. The message for
  the uploader is addressed to the email of the first \<open>users\<close> row of the document's
  uploader, and to no address when there is no such row or the lookup fails.
\<close>

theorem approve_notifications:
  assumes "db_error e UpdateApproval = None" and "db_error e SelectDocumentById = None"
    and "filter (\<lambda>d. doc_id d = ident) (documents st) = d0 # rest"
  shows
   "(astatus = ''Approved'' \<longrightarrow>
       (\<exists>m1 m2.
          outbox (fst (put_approve e ident astatus approver st)) = outbox st @ [m1, m2] \<and>
          m1 = \<lparr>mail_from = EMAIL_USER e,
                mail_to = [snd (getUserEmailByUsername e (uploaded_by d0) st)],
                subject = emoji_check @ '' Your document '' @ dquote @ document_name d0 @ dquote @
                          '' has been approved'',
                html = nl @ ''      <h3>Good news!</h3>'' @ nl @
                       ''      <p>Your document <strong>'' @ document_name d0 @
                       ''</strong> uploaded by <strong>'' @ uploaded_by d0 @
                       ''</strong> has been approved by the approver.</p>'' @ nl @
                       ''      <p>It will now be reviewed by the reviewer.</p>'' @ nl @
                       ''    ''\<rparr> \<and>
          m2 = \<lparr>mail_from = EMAIL_USER e,
                mail_to = [REVIEWER_EMAIL e],
                subject = emoji_page @ '' New Document '' @ dquote @ document_name d0 @ dquote @
                          '' Needs Your Review'',
                html = nl @ ''      <h3>Document Ready for Review</h3>'' @ nl @
                       ''      <p>A new document <strong>'' @ document_name d0 @
                       ''</strong> uploaded by <strong>'' @ uploaded_by d0 @
                       ''</strong> has been approved and is ready for your review.</p>'' @ nl @
                       ''      <p>Please log in to the system and take necessary action.</p>'' @ nl @
                       ''    ''\<rparr> \<and>
          subject m1 \<noteq> subject m2 \<and> html m1 \<noteq> html m2)) \<and>
    (astatus \<noteq> ''Approved'' \<longrightarrow>
       outbox (fst (put_approve e ident astatus approver st)) =
         outbox st @
         [\<lparr>mail_from = EMAIL_USER e,
           mail_to = [snd (getUserEmailByUsername e (uploaded_by d0) st)],
           subject = emoji_page @ '' Document '' @ dquote @ document_name d0 @ dquote @
                     '' Status: Unapproved'',
           html = nl @ ''      <h3>Document Status Update</h3>'' @ nl @
                  ''      <p><strong>'' @ document_name d0 @
                  ''</strong> uploaded by <strong>'' @ uploaded_by d0 @
                  ''</strong> is now marked as: <strong>Unapproved</strong>.</p>'' @ nl @
                  ''    ''\<rparr>]) \<and>
    (\<forall>n u s1 s2.
       approval_subject (Some ''sender'') n s1 \<noteq> approval_subject (Some ''reviewer'') n s2 \<and>
       approval_html (Some ''sender'') n u s1 \<noteq> approval_html (Some ''reviewer'') n u s2) \<and>
    (db_error e SelectEmailByUsername = None \<and>
     filter (\<lambda>u. username u = uploaded_by d0) (users st) = u0 # others \<longrightarrow>
       snd (getUserEmailByUsername e (uploaded_by d0) st) = Some (email u0)) \<and>
    (db_error e SelectEmailByUsername \<noteq> None \<or>
     filter (\<lambda>u. username u = uploaded_by d0) (users st) = [] \<longrightarrow>
       snd (getUserEmailByUsername e (uploaded_by d0) st) = None)"
proof (intro conjI impI allI)
  assume a: "astatus = ''Approved''"
  let ?sender = "snd (getUserEmailByUsername e (uploaded_by d0) st)"
  have sent: "outbox (fst (put_approve e ident astatus approver st)) =
      outbox st @
      [approval_mail e [?sender] (document_name d0) (uploaded_by d0) ''Approved'' (Some ''sender''),
       approval_mail e [REVIEWER_EMAIL e] (document_name d0) (uploaded_by d0) ''Pending Review''
         (Some ''reviewer'')]"
    using a by (simp add: outbox_put_approve_found [OF assms])
  have differ: "emoji_check @ '' Your document '' @ dquote @ document_name d0 @ dquote @
        '' has been approved'' \<noteq>
      emoji_page @ '' New Document '' @ dquote @ document_name d0 @ dquote @ '' Needs Your Review''"
    "nl @ ''      <h3>Good news!</h3>'' @ nl @
       ''      <p>Your document <strong>'' @ document_name d0 @
       ''</strong> uploaded by <strong>'' @ uploaded_by d0 @
       ''</strong> has been approved by the approver.</p>'' @ nl @
       ''      <p>It will now be reviewed by the reviewer.</p>'' @ nl @ ''    '' \<noteq>
     nl @ ''      <h3>Document Ready for Review</h3>'' @ nl @
       ''      <p>A new document <strong>'' @ document_name d0 @
       ''</strong> uploaded by <strong>'' @ uploaded_by d0 @
       ''</strong> has been approved and is ready for your review.</p>'' @ nl @
       ''      <p>Please log in to the system and take necessary action.</p>'' @ nl @ ''    ''"
    by (simp_all add: emoji_check_def emoji_page_def nl_def)
  from sent differ show "\<exists>m1 m2.
          outbox (fst (put_approve e ident astatus approver st)) = outbox st @ [m1, m2] \<and>
          m1 = \<lparr>mail_from = EMAIL_USER e,
                mail_to = [snd (getUserEmailByUsername e (uploaded_by d0) st)],
                subject = emoji_check @ '' Your document '' @ dquote @ document_name d0 @ dquote @
                          '' has been approved'',
                html = nl @ ''      <h3>Good news!</h3>'' @ nl @
                       ''      <p>Your document <strong>'' @ document_name d0 @
                       ''</strong> uploaded by <strong>'' @ uploaded_by d0 @
                       ''</strong> has been approved by the approver.</p>'' @ nl @
                       ''      <p>It will now be reviewed by the reviewer.</p>'' @ nl @
                       ''    ''\<rparr> \<and>
          m2 = \<lparr>mail_from = EMAIL_USER e,
                mail_to = [REVIEWER_EMAIL e],
                subject = emoji_page @ '' New Document '' @ dquote @ document_name d0 @ dquote @
                          '' Needs Your Review'',
                html = nl @ ''      <h3>Document Ready for Review</h3>'' @ nl @
                       ''      <p>A new document <strong>'' @ document_name d0 @
                       ''</strong> uploaded by <strong>'' @ uploaded_by d0 @
                       ''</strong> has been approved and is ready for your review.</p>'' @ nl @
                       ''      <p>Please log in to the system and take necessary action.</p>'' @ nl @
                       ''    ''\<rparr> \<and>
          subject m1 \<noteq> subject m2 \<and> html m1 \<noteq> html m2"
    by (simp add: approve_mails_written_out)
next
  assume "astatus \<noteq> ''Approved''"
  then show "outbox (fst (put_approve e ident astatus approver st)) =
         outbox st @
         [\<lparr>mail_from = EMAIL_USER e,
           mail_to = [snd (getUserEmailByUsername e (uploaded_by d0) st)],
           subject = emoji_page @ '' Document '' @ dquote @ document_name d0 @ dquote @
                     '' Status: Unapproved'',
           html = nl @ ''      <h3>Document Status Update</h3>'' @ nl @
                  ''      <p><strong>'' @ document_name d0 @
                  ''</strong> uploaded by <strong>'' @ uploaded_by d0 @
                  ''</strong> is now marked as: <strong>Unapproved</strong>.</p>'' @ nl @
                  ''    ''\<rparr>]"
    by (simp add: outbox_put_approve_found [OF assms] approve_mails_written_out)
next
  fix n u s1 s2
  show "approval_subject (Some ''sender'') n s1 \<noteq> approval_subject (Some ''reviewer'') n s2"
    by (rule approval_templates_differ)
  show "approval_html (Some ''sender'') n u s1 \<noteq> approval_html (Some ''reviewer'') n u s2"
    by (rule approval_templates_differ)
next
  assume "db_error e SelectEmailByUsername = None \<and>
     filter (\<lambda>u. username u = uploaded_by d0) (users st) = u0 # others"
  then show "snd (getUserEmailByUsername e (uploaded_by d0) st) = Some (email u0)"
    by (simp add: sender_email_resolves)
next
  assume "db_error e SelectEmailByUsername \<noteq> None \<or>
     filter (\<lambda>u. username u = uploaded_by d0) (users st) = []"
  then show "snd (getUserEmailByUsername e (uploaded_by d0) st) = None"
    by (rule sender_email_unresolved)
qed

theorem approve_notifications_witness:
  "db_error env_ok UpdateApproval = None \<and> db_error env_ok SelectDocumentById = None \<and>
   db_error env_ok SelectEmailByUsername = None \<and>
   filter (\<lambda>d. doc_id d = 2) (documents st_alice) = [doc_pending] \<and>
   filter (\<lambda>u. username u = uploaded_by doc_pending) (users st_alice) =
     [\<lparr>username = ''alice'', email = ''alice@x.com''\<rparr>] \<and>
   outbox (fst (put_approve env_ok 2 ''Approved'' ''bob'' st_alice)) =
     [\<lparr>mail_from = Some ''noreply@x.com'', mail_to = [Some ''alice@x.com''],
       subject = [CHR 0xE2, CHR 0x9C, CHR 0x85] @ '' Your document '' @ [CHR 0x22] @ ''b.pdf'' @
                 [CHR 0x22] @ '' has been approved'',
       html = [CHR 0x0A] @ ''      <h3>Good news!</h3>'' @ [CHR 0x0A] @
              ''      <p>Your document <strong>b.pdf</strong> uploaded by <strong>alice</strong> has been approved by the approver.</p>'' @
              [CHR 0x0A] @ ''      <p>It will now be reviewed by the reviewer.</p>'' @ [CHR 0x0A] @
              ''    ''\<rparr>,
      \<lparr>mail_from = Some ''noreply@x.com'', mail_to = [Some ''carol@x.com''],
       subject = [CHR 0xF0, CHR 0x9F, CHR 0x93, CHR 0x84] @ '' New Document '' @ [CHR 0x22] @
                 ''b.pdf'' @ [CHR 0x22] @ '' Needs Your Review'',
       html = [CHR 0x0A] @ ''      <h3>Document Ready for Review</h3>'' @ [CHR 0x0A] @
              ''      <p>A new document <strong>b.pdf</strong> uploaded by <strong>alice</strong> has been approved and is ready for your review.</p>'' @
              [CHR 0x0A] @ ''      <p>Please log in to the system and take necessary action.</p>'' @
              [CHR 0x0A] @ ''    ''\<rparr>] \<and>
   filter (\<lambda>d. doc_id d = 1) (documents st_alice) = [doc_approved] \<and>
   outbox (fst (put_approve env_ok 1 ''Unapproved'' ''bob'' st_alice)) =
     [\<lparr>mail_from = Some ''noreply@x.com'', mail_to = [Some ''alice@x.com''],
       subject = [CHR 0xF0, CHR 0x9F, CHR 0x93, CHR 0x84] @ '' Document '' @ [CHR 0x22] @
                 ''a.pdf'' @ [CHR 0x22] @ '' Status: Unapproved'',
       html = [CHR 0x0A] @ ''      <h3>Document Status Update</h3>'' @ [CHR 0x0A] @
              ''      <p><strong>a.pdf</strong> uploaded by <strong>alice</strong> is now marked as: <strong>Unapproved</strong>.</p>'' @
              [CHR 0x0A] @ ''    ''\<rparr>] \<and>
   filter (\<lambda>u. username u = uploaded_by doc_pending) (users st_no_user) = [] \<and>
   snd (getUserEmailByUsername env_ok (uploaded_by doc_pending) st_no_user) = None"
proof -
  note two = approve_notifications [OF alice_fixture(1,2,4), of "''Approved''" "''bob''"
      "\<lparr>username = ''alice'', email = ''alice@x.com''\<rparr>" "[]"]
  note one = approve_notifications [OF alice_fixture(1,2,3), of "''Unapproved''" "''bob''"
      "\<lparr>username = ''alice'', email = ''alice@x.com''\<rparr>" "[]"]
  note ghost = approve_notifications [OF no_user_fixture(1,2,4), of "''Approved''" "''bob''"]
  from two alice_user_fixture(1,2)
  have sender2: "snd (getUserEmailByUsername env_ok (uploaded_by doc_pending) st_alice) =
      Some ''alice@x.com''"
    by simp
  from one alice_user_fixture(1,3)
  have sender1: "snd (getUserEmailByUsername env_ok (uploaded_by doc_approved) st_alice) =
      Some ''alice@x.com''"
    by simp
  from two have o2: "outbox (fst (put_approve env_ok 2 ''Approved'' ''bob'' st_alice)) =
     [\<lparr>mail_from = Some ''noreply@x.com'', mail_to = [Some ''alice@x.com''],
       subject = [CHR 0xE2, CHR 0x9C, CHR 0x85] @ '' Your document '' @ [CHR 0x22] @ ''b.pdf'' @
                 [CHR 0x22] @ '' has been approved'',
       html = [CHR 0x0A] @ ''      <h3>Good news!</h3>'' @ [CHR 0x0A] @
              ''      <p>Your document <strong>b.pdf</strong> uploaded by <strong>alice</strong> has been approved by the approver.</p>'' @
              [CHR 0x0A] @ ''      <p>It will now be reviewed by the reviewer.</p>'' @ [CHR 0x0A] @
              ''    ''\<rparr>,
      \<lparr>mail_from = Some ''noreply@x.com'', mail_to = [Some ''carol@x.com''],
       subject = [CHR 0xF0, CHR 0x9F, CHR 0x93, CHR 0x84] @ '' New Document '' @ [CHR 0x22] @
                 ''b.pdf'' @ [CHR 0x22] @ '' Needs Your Review'',
       html = [CHR 0x0A] @ ''      <h3>Document Ready for Review</h3>'' @ [CHR 0x0A] @
              ''      <p>A new document <strong>b.pdf</strong> uploaded by <strong>alice</strong> has been approved and is ready for your review.</p>'' @
              [CHR 0x0A] @ ''      <p>Please log in to the system and take necessary action.</p>'' @
              [CHR 0x0A] @ ''    ''\<rparr>]"
    unfolding sender2
    by (simp add: alice_fixture(6-11) alice_user_fixture(4)
        emoji_check_def emoji_page_def dquote_def nl_def)
  from one have o1: "outbox (fst (put_approve env_ok 1 ''Unapproved'' ''bob'' st_alice)) =
     [\<lparr>mail_from = Some ''noreply@x.com'', mail_to = [Some ''alice@x.com''],
       subject = [CHR 0xF0, CHR 0x9F, CHR 0x93, CHR 0x84] @ '' Document '' @ [CHR 0x22] @
                 ''a.pdf'' @ [CHR 0x22] @ '' Status: Unapproved'',
       html = [CHR 0x0A] @ ''      <h3>Document Status Update</h3>'' @ [CHR 0x0A] @
              ''      <p><strong>a.pdf</strong> uploaded by <strong>alice</strong> is now marked as: <strong>Unapproved</strong>.</p>'' @
              [CHR 0x0A] @ ''    ''\<rparr>]"
    unfolding sender1
    by (simp add: alice_fixture(6-11) alice_user_fixture(4)
        emoji_check_def emoji_page_def dquote_def nl_def)
  from ghost no_user_fixture(6)
  have g: "snd (getUserEmailByUsername env_ok (uploaded_by doc_pending) st_no_user) = None"
    by blast
  from alice_fixture(1,2,3,4) alice_user_fixture(1,2) o2 o1 no_user_fixture(6) g show ?thesis
    by blast
qed

text \<open>
  Claim C9. The approval transition does not validate the decision: for every string
  other than \<open>Approved\<close>, on a document that exists, the string is stored as the
  document's \<open>approval_status\<close>, the single status message of the unapproved branch is
  sent to the uploader, and the answer is the success message.
\<close>

theorem approve_stores_any_status:
  assumes "astatus \<noteq> ''Approved''"
    and "db_error e UpdateApproval = None" and "db_error e SelectDocumentById = None"
    and "filter (\<lambda>d. doc_id d = ident) (documents st) = d0 # rest"
  shows "(\<forall>i < length (documents st).
            doc_id (documents st ! i) = ident \<longrightarrow>
            approval_status (documents (fst (put_approve e ident astatus approver st)) ! i) = astatus) \<and>
         outbox (fst (put_approve e ident astatus approver st)) =
           outbox st @ [approval_mail e [snd (getUserEmailByUsername e (uploaded_by d0) st)]
                          (document_name d0) (uploaded_by d0) ''Unapproved'' None] \<and>
         snd (put_approve e ident astatus approver st) =
           Json 200 (Message ''Approval status updated and notification sent'')"
proof (intro conjI allI impI)
  fix i
  assume "i < length (documents st)" and "doc_id (documents st ! i) = ident"
  with assms(2) show
    "approval_status (documents (fst (put_approve e ident astatus approver st)) ! i) = astatus"
    by (simp add: documents_put_approve nth_update_approval)
next
  from assms(1) show "outbox (fst (put_approve e ident astatus approver st)) =
           outbox st @ [approval_mail e [snd (getUserEmailByUsername e (uploaded_by d0) st)]
                          (document_name d0) (uploaded_by d0) ''Unapproved'' None]"
    by (simp add: outbox_put_approve_found [OF assms(2-4)])
next
  show "snd (put_approve e ident astatus approver st) =
           Json 200 (Message ''Approval status updated and notification sent'')"
    by (simp add: put_approve_found [OF assms(2-4)])
qed

theorem approve_stores_any_status_witness:
  "''banana'' \<noteq> ''Approved'' \<and>
   db_error env_ok UpdateApproval = None \<and> db_error env_ok SelectDocumentById = None \<and>
   filter (\<lambda>d. doc_id d = 2) (documents st_alice) = [doc_pending] \<and>
   (1::nat) < length (documents st_alice) \<and> doc_id (documents st_alice ! 1) = 2 \<and>
   approval_status (documents (fst (put_approve env_ok 2 ''banana'' ''bob'' st_alice)) ! 1) =
     ''banana'' \<and>
   outbox (fst (put_approve env_ok 2 ''banana'' ''bob'' st_alice)) =
     [approval_mail env_ok [Some ''alice@x.com''] ''b.pdf'' ''alice'' ''Unapproved'' None] \<and>
   snd (put_approve env_ok 2 ''banana'' ''bob'' st_alice) =
     Json 200 (Message ''Approval status updated and notification sent'')"
proof -
  have ne: "''banana'' \<noteq> ''Approved''"
    by simp
  note t = approve_stores_any_status [OF ne alice_fixture(1,2,4), of "''bob''"]
  have row: "(1::nat) < length (documents st_alice) \<and> doc_id (documents st_alice ! 1) = 2"
    by (simp add: st_alice_def doc_pending_def)
  with t have stored:
    "approval_status (documents (fst (put_approve env_ok 2 ''banana'' ''bob'' st_alice)) ! 1) =
       ''banana''"
    by blast
  from t have sent: "outbox (fst (put_approve env_ok 2 ''banana'' ''bob'' st_alice)) =
     [approval_mail env_ok [Some ''alice@x.com''] ''b.pdf'' ''alice'' ''Unapproved'' None]"
    by (simp add: alice_fixture)
  from t have ok: "snd (put_approve env_ok 2 ''banana'' ''bob'' st_alice) =
     Json 200 (Message ''Approval status updated and notification sent'')"
    by blast
  from ne alice_fixture(1,2,4) row stored sent ok show ?thesis
    by blast
qed

subsection \<open>Repeated review\<close>

lemma first_review_fixture:
  "documents (fst (put_review env_ok ''alice'' ''Rejected'' ''dave'' st_alice)) =
     [doc_approved\<lparr>review_status := ''Rejected'', reviewer := Some ''dave'',
                    review_time := Some 30\<rparr>, doc_pending]"
  by (simp add: documents_put_review update_review_def review_where_def sql_eq_def
      env_ok_def st_alice_def doc_approved_def doc_pending_def)

text \<open>
  Claim C10. Review is not once-only. For a document that is approved and already carries
  a review decision (its \<open>review_status\<close> is not \<open>Pending\<close>), a further review transition
  for its uploader, executed by the database, overwrites \<open>review_status\<close>, \<open>reviewer\<close> and
  \<open>review_time\<close> with the new decision, reviewer and time, and changes nothing else in
  the row.
\<close>

theorem review_overwrites_earlier_review:
  assumes "i < length (documents st)"
    and "approval_status (documents st ! i) = ''Approved''"
    and "review_status (documents st ! i) \<noteq> ''Pending''"
    and "db_error e UpdateReview = None"
  shows "documents (fst (put_review e (uploaded_by (documents st ! i)) rstatus rvw st)) ! i =
           (documents st ! i)\<lparr>review_status := rstatus, reviewer := Some rvw,
                               review_time := Some (new_date e)\<rparr> \<and>
         review_status (documents (fst (put_review e (uploaded_by (documents st ! i)) rstatus rvw st)) ! i)
           = rstatus \<and>
         reviewer (documents (fst (put_review e (uploaded_by (documents st ! i)) rstatus rvw st)) ! i)
           = Some rvw \<and>
         review_time (documents (fst (put_review e (uploaded_by (documents st ! i)) rstatus rvw st)) ! i)
           = Some (new_date e)"
  using assms by (simp add: documents_put_review nth_update_review)

theorem review_overwrites_earlier_review_witness:
  "(0::nat) < length (documents (fst (put_review env_ok ''alice'' ''Rejected'' ''dave'' st_alice))) \<and>
   approval_status (documents (fst (put_review env_ok ''alice'' ''Rejected'' ''dave'' st_alice)) ! 0)
     = ''Approved'' \<and>
   review_status (documents (fst (put_review env_ok ''alice'' ''Rejected'' ''dave'' st_alice)) ! 0)
     = ''Rejected'' \<and>
   db_error (env_ok\<lparr>new_date := 40\<rparr>) UpdateReview = None \<and>
   documents (fst (put_review (env_ok\<lparr>new_date := 40\<rparr>) ''alice'' ''Approved'' ''carol''
                (fst (put_review env_ok ''alice'' ''Rejected'' ''dave'' st_alice)))) ! 0 =
     doc_approved\<lparr>review_status := ''Approved'', reviewer := Some ''carol'',
                   review_time := Some 40\<rparr>"
proof -
  let ?st1 = "fst (put_review env_ok ''alice'' ''Rejected'' ''dave'' st_alice)"
  have h: "(0::nat) < length (documents ?st1)"
      "approval_status (documents ?st1 ! 0) = ''Approved''"
      "review_status (documents ?st1 ! 0) = ''Rejected''"
      "uploaded_by (documents ?st1 ! 0) = ''alice''"
    by (simp_all add: first_review_fixture doc_approved_def)
  have ne: "review_status (documents ?st1 ! 0) \<noteq> ''Pending''"
    by (simp add: h(3))
  have db: "db_error (env_ok\<lparr>new_date := 40\<rparr>) UpdateReview = None"
    by (simp add: env_ok_def)
  from review_overwrites_earlier_review [OF h(1) h(2) ne db, of "''Approved''" "''carol''"]
  have "documents (fst (put_review (env_ok\<lparr>new_date := 40\<rparr>) ''alice'' ''Approved'' ''carol''
                ?st1)) ! 0 =
     doc_approved\<lparr>review_status := ''Approved'', reviewer := Some ''carol'',
                   review_time := Some 40\<rparr>"
    by (simp add: h(4) first_review_fixture doc_approved_def)
  with h db show ?thesis
    by blast
qed

subsection \<open>POST /upload\<close>

lemma documents_sendEmailNotification [simp]:
  "documents (sendEmailNotification e n u l st) = documents st"
  by (simp add: sendEmailNotification_def split_beta split: option.splits)

lemma uploads_console_error [simp]: "uploads (console_error a b st) = uploads st"
  by (simp add: console_error_def)

lemma uploads_console_log [simp]: "uploads (console_log a st) = uploads st"
  by (simp add: console_log_def)

lemma uploads_sendEmailNotification [simp]:
  "uploads (sendEmailNotification e n u l st) = uploads st"
  by (simp add: sendEmailNotification_def sendMail_def split: option.splits)

lemma unlinkSync_Inr:
  "unlinkSync p st = Inr st' \<Longrightarrow> documents st' = documents st"
  by (auto simp: unlinkSync_def split: if_splits)

lemma upload_handler_success:
  assumes "snd (upload_handler e u n p st) = Json 200 b"
  shows "\<exists>fid. drive_create e (date_now e @ ''-'' @ n) = Inr fid \<and>
           documents (fst (upload_handler e u n p st)) =
             insert_document (auto_increment e) n (''https://drive.google.com/uc?id='' @ fid) u
               (ist_date e) (documents st)"
  using assms
  by (auto simp: upload_handler_def upload_failed_def Let_def unlinkSync_def
      split: sum.splits option.splits if_splits)

lemma upload_handler_runs:
  assumes "drive_create e (date_now e @ ''-'' @ n) = Inr fid"
    and "drive_permission_error e fid = None"
    and "db_error e InsertDocument = None"
    and "p \<in> uploads st"
  shows "snd (upload_handler e u n p st) =
           Json 200 (SuccessMessage ''Document uploaded to Google Drive and saved'')"
  using assms by (simp add: upload_handler_def Let_def unlinkSync_def)

lemma upload_fixture:
  "fileFilter env_ok ''c.pdf''"
  "\<not> fileFilter env_ok ''notes.txt''"
  "drive_create env_ok (date_now env_ok @ ''-'' @ ''c.pdf'') = Inr ''f1''"
  "drive_permission_error env_ok ''f1'' = None"
  "db_error env_ok InsertDocument = None"
  "auto_increment env_ok = 3" "ist_date env_ok = 20"
  "documents st_alice = [doc_approved, doc_pending]"
  by (simp_all add: fileFilter_def env_ok_def ext_from_last_dot_def lower_char_def st_alice_def)

text \<open>
  Claim C5. A successful submission (the answer of \<open>POST /upload\<close> is a 200) is the upload
  of a file that passed the PDF filter, and it adds exactly one row to \<open>documents\<close>, at
  the end of the table: a row with \<open>approval_status\<close> and \<open>review_status\<close> both \<open>Pending\<close>
  and, as its link, the Drive download address of the file Drive has just stored. Such
  submissions exist: an upload that passes the filter succeeds whenever Drive accepts the
  file and the permission and the database accepts the \<open>INSERT\<close>.
\<close>

theorem upload_creates_one_pending_document:
  "(snd (post_upload e file uploadedBy st) = Json 200 b \<longrightarrow>
      (\<exists>name fid.
         file = Some name \<and> fileFilter e name \<and>
         drive_create e (date_now e @ ''-'' @ name) = Inr fid \<and>
         documents (fst (post_upload e file uploadedBy st)) =
           documents st @
           [\<lparr>doc_id = auto_increment e, document_name = name,
             document_link = ''https://drive.google.com/uc?id='' @ fid,
             uploaded_by = uploadedBy, upload_time = ist_date e,
             approval_status = ''Pending'', approved_by = None, approval_time = None,
             review_status = ''Pending'', reviewer = None, review_time = None\<rparr>])) \<and>
   (fileFilter e name \<and> drive_create e (date_now e @ ''-'' @ name) = Inr fid \<and>
    drive_permission_error e fid = None \<and> db_error e InsertDocument = None \<longrightarrow>
      snd (post_upload e (Some name) uploadedBy st) =
        Json 200 (SuccessMessage ''Document uploaded to Google Drive and saved''))"
proof (intro conjI impI)
  assume ok: "snd (post_upload e file uploadedBy st) = Json 200 b"
  then obtain name where given: "file = Some name" and pdf: "fileFilter e name"
    by (auto simp: post_upload_def split: option.splits if_splits)
  let ?p = "''uploads/'' @ multer_date_now e @ ''-'' @ name"
  let ?st0 = "st\<lparr>uploads := insert ?p (uploads st)\<rparr>"
  from given pdf have run: "post_upload e file uploadedBy st = upload_handler e uploadedBy name ?p ?st0"
    by (simp add: post_upload_def Let_def)
  with ok have "snd (upload_handler e uploadedBy name ?p ?st0) = Json 200 b"
    by simp
  from upload_handler_success [OF this] obtain fid where
    "drive_create e (date_now e @ ''-'' @ name) = Inr fid"
    "documents (fst (upload_handler e uploadedBy name ?p ?st0)) =
       insert_document (auto_increment e) name (''https://drive.google.com/uc?id='' @ fid)
         uploadedBy (ist_date e) (documents ?st0)"
    by blast
  with given pdf run show "\<exists>name fid.
         file = Some name \<and> fileFilter e name \<and>
         drive_create e (date_now e @ ''-'' @ name) = Inr fid \<and>
         documents (fst (post_upload e file uploadedBy st)) =
           documents st @
           [\<lparr>doc_id = auto_increment e, document_name = name,
             document_link = ''https://drive.google.com/uc?id='' @ fid,
             uploaded_by = uploadedBy, upload_time = ist_date e,
             approval_status = ''Pending'', approved_by = None, approval_time = None,
             review_status = ''Pending'', reviewer = None, review_time = None\<rparr>]"
    by (simp add: insert_document_def)
next
  assume "fileFilter e name \<and> drive_create e (date_now e @ ''-'' @ name) = Inr fid \<and>
    drive_permission_error e fid = None \<and> db_error e InsertDocument = None"
  then show "snd (post_upload e (Some name) uploadedBy st) =
        Json 200 (SuccessMessage ''Document uploaded to Google Drive and saved'')"
    by (simp add: post_upload_def Let_def upload_handler_runs)
qed

theorem upload_creates_one_pending_document_witness:
  "fileFilter env_ok ''c.pdf'' \<and>
   drive_create env_ok (date_now env_ok @ ''-'' @ ''c.pdf'') = Inr ''f1'' \<and>
   drive_permission_error env_ok ''f1'' = None \<and> db_error env_ok InsertDocument = None \<and>
   snd (post_upload env_ok (Some ''c.pdf'') ''alice'' st_alice) =
     Json 200 (SuccessMessage ''Document uploaded to Google Drive and saved'') \<and>
   documents (fst (post_upload env_ok (Some ''c.pdf'') ''alice'' st_alice)) =
     [doc_approved, doc_pending,
      \<lparr>doc_id = 3, document_name = ''c.pdf'',
       document_link = ''https://drive.google.com/uc?id=f1'',
       uploaded_by = ''alice'', upload_time = 20,
       approval_status = ''Pending'', approved_by = None, approval_time = None,
       review_status = ''Pending'', reviewer = None, review_time = None\<rparr>]"
proof -
  note t = upload_creates_one_pending_document
    [of env_ok "Some ''c.pdf''" "''alice''" st_alice
        "SuccessMessage ''Document uploaded to Google Drive and saved''" "''c.pdf''" "''f1''"]
  from t upload_fixture(1,3,4,5)
  have ok: "snd (post_upload env_ok (Some ''c.pdf'') ''alice'' st_alice) =
     Json 200 (SuccessMessage ''Document uploaded to Google Drive and saved'')"
    by blast
  with t obtain name fid where
    n: "Some ''c.pdf'' = Some name" and
    d: "drive_create env_ok (date_now env_ok @ ''-'' @ name) = Inr fid" and
    docs: "documents (fst (post_upload env_ok (Some ''c.pdf'') ''alice'' st_alice)) =
       documents st_alice @
       [\<lparr>doc_id = auto_increment env_ok, document_name = name,
         document_link = ''https://drive.google.com/uc?id='' @ fid,
         uploaded_by = ''alice'', upload_time = ist_date env_ok,
         approval_status = ''Pending'', approved_by = None, approval_time = None,
         review_status = ''Pending'', reviewer = None, review_time = None\<rparr>]"
    by blast
  from n have name: "name = ''c.pdf''"
    by simp
  from d have fid: "fid = ''f1''"
    unfolding name upload_fixture(3) by simp
  from docs have "documents (fst (post_upload env_ok (Some ''c.pdf'') ''alice'' st_alice)) =
     [doc_approved, doc_pending,
      \<lparr>doc_id = 3, document_name = ''c.pdf'',
       document_link = ''https://drive.google.com/uc?id=f1'',
       uploaded_by = ''alice'', upload_time = 20,
       approval_status = ''Pending'', approved_by = None, approval_time = None,
       review_status = ''Pending'', reviewer = None, review_time = None\<rparr>]"
    unfolding name fid by (simp add: upload_fixture(6-8))
  with ok upload_fixture(1,3,4,5) show ?thesis
    by blast
qed

text \<open>
  Claim C6. An upload whose file is not a PDF, which for the server means that the
  extension of its original name, in lower case, is not \<open>.pdf\<close>, is rejected with the
  error \<open>Only PDF files are allowed\<close> and leaves the whole state as it was: nothing is
  written to \<open>uploads/\<close>, to Drive or to the database.
\<close>

theorem non_pdf_rejected_before_any_write:
  assumes "\<not> fileFilter e originalname"
  shows "post_upload e (Some originalname) uploadedBy st =
           (st, Errored ''Only PDF files are allowed'')"
  using assms by (simp add: post_upload_def)

theorem non_pdf_rejected_before_any_write_witness:
  "\<not> fileFilter env_ok ''notes.txt'' \<and>
   post_upload env_ok (Some ''notes.txt'') ''alice'' st_alice =
     (st_alice, Errored ''Only PDF files are allowed'')"
  using non_pdf_rejected_before_any_write [OF upload_fixture(2), of "''alice''" st_alice]
    upload_fixture(2)
  by blast

subsection \<open>Failing notifications\<close>

lemma upload_ignores_mail_failure:
  "snd (post_upload (e\<lparr>mail_error := f\<rparr>) file u st) = snd (post_upload e file u st) \<and>
   documents (fst (post_upload (e\<lparr>mail_error := f\<rparr>) file u st)) =
     documents (fst (post_upload e file u st))"
  by (simp add: post_upload_def upload_handler_def upload_failed_def fileFilter_def Let_def
      unlinkSync_def split: option.splits sum.splits)

lemma approve_ignores_mail_failure:
  "snd (put_approve (e\<lparr>mail_error := f\<rparr>) ident a b st) = snd (put_approve e ident a b st) \<and>
   documents (fst (put_approve (e\<lparr>mail_error := f\<rparr>) ident a b st)) =
     documents (fst (put_approve e ident a b st))"
  by (simp add: put_approve_def approve_failed_def Let_def split: option.splits list.splits)

text \<open>
  Claim C3. A failure of the notification is to be logged without failing the operation.
  \<open>POST /upload\<close> and \<open>PUT /api/approve/:id\<close> do so: their answer and the table they leave
  do not depend on what the mail relay answers (the two lemmas above). \<open>PUT /api/review\<close>
  does not: it awaits \<open>transporter.sendMail\<close> inside the handler's own \<open>try\<close>. With a
  relay that rejects the message, the review of alice's documents commits the update of
  her approved document, logs the failure under \<open>DB Error:\<close> and answers 500
  \<open>Failed to update review status.\<close>
\<close>

theorem review_fails_when_mail_fails:
  "snd (put_review env_mail_down ''alice'' ''Approved'' ''carol'' st_alice) =
     Json 500 (Error ''Failed to update review status.'') \<and>
   documents (fst (put_review env_mail_down ''alice'' ''Approved'' ''carol'' st_alice)) =
     [doc_approved\<lparr>review_status := ''Approved'', reviewer := Some ''carol'',
                    review_time := Some 30\<rparr>, doc_pending] \<and>
   console (fst (put_review env_mail_down ''alice'' ''Approved'' ''carol'' st_alice)) =
     [LogError ''DB Error:'' ''ECONNREFUSED'']"
  by (simp add: put_review_def review_failed_def sendMail_def getUserEmailByUsername_def
      console_error_def update_review_def review_where_def sql_eq_def
      env_mail_down_def env_ok_def st_alice_def doc_approved_def doc_pending_def)

subsection \<open>POST /verify-otp\<close>

lemma verify_otp_with_candidate:
  "snd (post_verify_otp k (Some c) st) = Json 200 (Message ''OTP verified successfully'') \<longleftrightarrow>
     otpStore st k = Some c"
  by (simp add: post_verify_otp_def Let_def)

lemma verify_otp_single_use:
  assumes "otpStore st k = Some c"
  shows "otpStore (fst (post_verify_otp k (Some c) st)) k = None"
    and "post_verify_otp k (Some c) (fst (post_verify_otp k (Some c) st)) =
           (fst (post_verify_otp k (Some c) st), Json 400 (Message ''Invalid OTP''))"
  using assms by (simp_all add: post_verify_otp_def Let_def)

lemma verify_otp_mismatch:
  assumes "otpStore st k \<noteq> cand"
  shows "post_verify_otp k cand st = (st, Json 400 (Message ''Invalid OTP''))"
  using assms by (auto simp: post_verify_otp_def Let_def)

text \<open>
  Claim C7. Verification is to succeed exactly when a code is stored for the email and
  equals the candidate. For a candidate that is present the handler does that, once per
  code (the three lemmas above). But the comparison \<open>enteredOtp === validOtp\<close> also holds
  when both sides are \<open>undefined\<close>: a request without \<open>enteredOtp\<close>, for an email that has
  no code, is answered \<open>OTP verified successfully\<close>.
\<close>

theorem verify_otp_without_code_succeeds:
  "otpStore st_alice ''a@x.com'' = None \<and>
   post_verify_otp ''a@x.com'' None st_alice =
     (st_alice, Json 200 (Message ''OTP verified successfully''))"
  by (simp add: post_verify_otp_def st_alice_def)

subsection \<open>The document views\<close>

lemma sql_like_percent [simp]: "sql_like ''%'' s"
  by (induction s) simp_all

lemma sql_like_any_run:
  "sql_like (CHR ''%'' # ps) s \<longleftrightarrow> (\<exists>a b. s = a @ b \<and> sql_like ps b)"
proof (induction s)
  case Nil
  then show ?case by simp
next
  case (Cons c cs)
  show ?case
  proof
    assume "sql_like (CHR ''%'' # ps) (c # cs)"
    then consider "sql_like ps (c # cs)" | "sql_like (CHR ''%'' # ps) cs"
      by auto
    then show "\<exists>a b. c # cs = a @ b \<and> sql_like ps b"
    proof cases
      case 1
      then have "c # cs = [] @ (c # cs) \<and> sql_like ps (c # cs)" by simp
      then show ?thesis by blast
    next
      case 2
      with Cons.IH obtain a b where "cs = a @ b" "sql_like ps b" by blast
      then have "c # cs = (c # a) @ b \<and> sql_like ps b" by simp
      then show ?thesis by blast
    qed
  next
    assume "\<exists>a b. c # cs = a @ b \<and> sql_like ps b"
    then obtain a b where ab: "c # cs = a @ b" "sql_like ps b" by blast
    show "sql_like (CHR ''%'' # ps) (c # cs)"
    proof (cases a)
      case Nil
      with ab show ?thesis by simp
    next
      case (Cons x xs)
      with ab have "cs = xs @ b" by simp
      with ab(2) Cons.IH have "sql_like (CHR ''%'' # ps) cs" by blast
      then show ?thesis by simp
    qed
  qed
qed

lemma sql_like_literal:
  assumes "CHR ''%'' \<notin> set k" "CHR ''_'' \<notin> set k" "CHR 0x5C \<notin> set k"
  shows "sql_like (k @ ps) s \<longleftrightarrow> (\<exists>t. s = k @ t \<and> sql_like ps t)"
  using assms
proof (induction k arbitrary: s)
  case Nil
  then show ?case by simp
next
  case (Cons c k)
  then show ?case
    by (cases s) auto
qed

lemma sql_like_contains:
  assumes "CHR ''%'' \<notin> set k" "CHR ''_'' \<notin> set k" "CHR 0x5C \<notin> set k"
  shows "sql_like (''%'' @ k @ ''%'') s \<longleftrightarrow> sublist k s"
proof -
  have "sql_like (''%'' @ k @ ''%'') s \<longleftrightarrow> (\<exists>a b. s = a @ b \<and> sql_like (k @ ''%'') b)"
    using sql_like_any_run [of "k @ ''%''" s] by simp
  also have "\<dots> \<longleftrightarrow> (\<exists>a b. s = a @ b \<and> (\<exists>t. b = k @ t))"
    using sql_like_literal [OF assms, of "''%''"] sql_like_percent by blast
  also have "\<dots> \<longleftrightarrow> sublist k s"
    by (auto simp: sublist_def)
  finally show ?thesis .
qed

lemma views_fixture:
  "db_error env_ok SelectDocumentsByUploader = None"
  "db_error env_ok SelectDocumentsLike = None"
  "documents st_alice = [doc_approved, doc_pending]"
  "uploaded_by doc_approved = ''alice''" "uploaded_by doc_pending = ''alice''"
  by (simp_all add: env_ok_def st_alice_def doc_approved_def doc_pending_def)

text \<open>
  Claim C8, as stated, fails in both views. The modern view treats an empty key as no key
  and returns every document, not the documents whose uploader is the empty string. The
  legacy view puts the key into a \<open>LIKE\<close> pattern unescaped, so the key \<open>al_ce\<close> matches
  the uploader \<open>alice\<close>, which does not contain it.
\<close>

theorem views_exact_and_substring_counterexample:
  "snd (get_documents env_ok (Some []) st_alice) \<noteq>
     Json 200 (Rows (filter (\<lambda>d. uploaded_by d = []) (documents st_alice))) \<and>
   snd (get_api_document env_ok (Some ''al_ce'') st_alice) \<noteq>
     Json 200 (Rows (filter (\<lambda>d. sublist ''al_ce'' (uploaded_by d)) (documents st_alice)))"
  by (simp add: get_documents_def get_api_document_def truthy_key_def views_fixture
      sublist_Cons_right)

text \<open>
  Claim C8, amended. Both views are pure reads: they return the state they were given.
  When the database executes the query, the modern view, given a non-empty key, returns
  exactly the documents whose uploader equals the key, and the legacy view, given a
  non-empty key without the characters \<open>%\<close>, \<open>_\<close> and backslash, returns exactly the
  documents whose uploader contains the key as a substring; with an empty or absent key
  both views return every document.
\<close>

theorem views_filter_by_uploader:
  "fst (get_documents e q st) = st \<and>
   fst (get_api_document e q st) = st \<and>
   (db_error e SelectDocumentsByUploader = None \<and> k \<noteq> [] \<longrightarrow>
      snd (get_documents e (Some k) st) =
        Json 200 (Rows (filter (\<lambda>d. uploaded_by d = k) (documents st)))) \<and>
   (db_error e SelectDocumentsLike = None \<and> k \<noteq> [] \<and>
    CHR ''%'' \<notin> set k \<and> CHR ''_'' \<notin> set k \<and> CHR 0x5C \<notin> set k \<longrightarrow>
      snd (get_api_document e (Some k) st) =
        Json 200 (Rows (filter (\<lambda>d. sublist k (uploaded_by d)) (documents st)))) \<and>
   (db_error e SelectDocumentsByUploader = None \<longrightarrow>
      snd (get_documents e (Some []) st) = Json 200 (Rows (documents st)) \<and>
      snd (get_documents e None st) = Json 200 (Rows (documents st))) \<and>
   (db_error e SelectDocumentsLike = None \<longrightarrow>
      snd (get_api_document e (Some []) st) = Json 200 (Rows (documents st)) \<and>
      snd (get_api_document e None st) = Json 200 (Rows (documents st)))"
proof (intro conjI impI)
  show "fst (get_documents e q st) = st"
    by (simp add: get_documents_def split: option.splits)
  show "fst (get_api_document e q st) = st"
    by (simp add: get_api_document_def split: option.splits)
next
  assume "db_error e SelectDocumentsByUploader = None \<and> k \<noteq> []"
  then show "snd (get_documents e (Some k) st) =
        Json 200 (Rows (filter (\<lambda>d. uploaded_by d = k) (documents st)))"
    by (simp add: get_documents_def truthy_key_def sql_eq_def)
next
  assume a: "db_error e SelectDocumentsLike = None \<and> k \<noteq> [] \<and>
    CHR ''%'' \<notin> set k \<and> CHR ''_'' \<notin> set k \<and> CHR 0x5C \<notin> set k"
  then have "\<And>s. sql_like (''%'' @ k @ ''%'') s \<longleftrightarrow> sublist k s"
    using sql_like_contains by blast
  with a show "snd (get_api_document e (Some k) st) =
        Json 200 (Rows (filter (\<lambda>d. sublist k (uploaded_by d)) (documents st)))"
    by (simp add: get_api_document_def truthy_key_def)
next
  assume "db_error e SelectDocumentsByUploader = None"
  then show "snd (get_documents e (Some []) st) = Json 200 (Rows (documents st))"
    and "snd (get_documents e None st) = Json 200 (Rows (documents st))"
    by (simp_all add: get_documents_def truthy_key_def)
next
  assume "db_error e SelectDocumentsLike = None"
  then show "snd (get_api_document e (Some []) st) = Json 200 (Rows (documents st))"
    and "snd (get_api_document e None st) = Json 200 (Rows (documents st))"
    by (simp_all add: get_api_document_def truthy_key_def)
qed

theorem views_filter_by_uploader_witness:
  "db_error env_ok SelectDocumentsByUploader = None \<and>
   db_error env_ok SelectDocumentsLike = None \<and>
   snd (get_documents env_ok (Some ''alice'') st_alice) = Json 200 (Rows [doc_approved, doc_pending]) \<and>
   snd (get_documents env_ok (Some ''ali'') st_alice) = Json 200 (Rows []) \<and>
   CHR ''%'' \<notin> set ''ali'' \<and> CHR ''_'' \<notin> set ''ali'' \<and> CHR 0x5C \<notin> set ''ali'' \<and>
   snd (get_api_document env_ok (Some ''ali'') st_alice) =
     Json 200 (Rows [doc_approved, doc_pending]) \<and>
   snd (get_api_document env_ok (Some ''bob'') st_alice) = Json 200 (Rows [])"
proof -
  note alice = views_filter_by_uploader [of env_ok "Some ''alice''" st_alice "''alice''"]
  note ali = views_filter_by_uploader [of env_ok "Some ''ali''" st_alice "''ali''"]
  note bob = views_filter_by_uploader [of env_ok "Some ''bob''" st_alice "''bob''"]
  have lit: "CHR ''%'' \<notin> set ''ali'' \<and> CHR ''_'' \<notin> set ''ali'' \<and> CHR 0x5C \<notin> set ''ali''"
    "CHR ''%'' \<notin> set ''bob'' \<and> CHR ''_'' \<notin> set ''bob'' \<and> CHR 0x5C \<notin> set ''bob''"
    "''alice'' \<noteq> []" "''ali'' \<noteq> []" "''bob'' \<noteq> []"
    by simp_all
  from alice views_fixture(1) lit(3)
  have "snd (get_documents env_ok (Some ''alice'') st_alice) =
      Json 200 (Rows (filter (\<lambda>d. uploaded_by d = ''alice'') (documents st_alice)))"
    by blast
  then have m1: "snd (get_documents env_ok (Some ''alice'') st_alice) =
      Json 200 (Rows [doc_approved, doc_pending])"
    by (simp add: views_fixture)
  from ali views_fixture(1) lit(4)
  have "snd (get_documents env_ok (Some ''ali'') st_alice) =
      Json 200 (Rows (filter (\<lambda>d. uploaded_by d = ''ali'') (documents st_alice)))"
    by blast
  then have m2: "snd (get_documents env_ok (Some ''ali'') st_alice) = Json 200 (Rows [])"
    by (simp add: views_fixture)
  from ali views_fixture(2) lit(1,4)
  have "snd (get_api_document env_ok (Some ''ali'') st_alice) =
      Json 200 (Rows (filter (\<lambda>d. sublist ''ali'' (uploaded_by d)) (documents st_alice)))"
    by blast
  then have l1: "snd (get_api_document env_ok (Some ''ali'') st_alice) =
      Json 200 (Rows [doc_approved, doc_pending])"
    by (simp add: views_fixture sublist_Cons_right)
  from bob views_fixture(2) lit(2,5)
  have "snd (get_api_document env_ok (Some ''bob'') st_alice) =
      Json 200 (Rows (filter (\<lambda>d. sublist ''bob'' (uploaded_by d)) (documents st_alice)))"
    by blast
  then have l2: "snd (get_api_document env_ok (Some ''bob'') st_alice) = Json 200 (Rows [])"
    by (simp add: views_fixture sublist_Cons_right)
  from views_fixture(1,2) m1 m2 lit(1) l1 l2 show ?thesis
    by blast
qed

end
